theory Spec2Isabelle
  imports Complex_Main "HOL-Library.Multiset"
begin

section \<open>JavaScript values and the built-ins the code relies on\<close>

text \<open>
  Row cells are the primitive values of the table model:
  \<^verbatim>\<open>null | undefined | boolean | number | string\<close>.
  A JavaScript number is either NaN or a finite value; finite doubles are idealised as
  reals (no infinities, and no rounding except where the arithmetic is a parameter), and
  NaN is \<open>None\<close>.
  Strings are sequences of code units below 256.
\<close>

type_synonym number = "real option"

datatype jsval = JNull | JUndefined | JBool bool | JNum number | JStr string

text \<open>
  Three built-ins of the language are not code of the repository and are taken as
  parameters: \<^verbatim>\<open>Number(s)\<close> on a string, \<^verbatim>\<open>String(n)\<close> on a
  finite number, and whether \<^verbatim>\<open>new Date(v).getTime()\<close> is not NaN.
\<close>

record js_builtins =
  StringToNumber :: "string \<Rightarrow> number"
  NumberToString :: "real \<Rightarrow> string"
  DateValid :: "jsval \<Rightarrow> bool"

text \<open>\<^verbatim>\<open>Number(v)\<close>\<close>

fun Number :: "js_builtins \<Rightarrow> jsval \<Rightarrow> number" where
  "Number J JNull = Some 0"
| "Number J JUndefined = None"
| "Number J (JBool b) = Some (if b then 1 else 0)"
| "Number J (JNum n) = n"
| "Number J (JStr s) = StringToNumber J s"

text \<open>\<^verbatim>\<open>String(v)\<close>\<close>

fun String :: "js_builtins \<Rightarrow> jsval \<Rightarrow> string" where
  "String J JNull = ''null''"
| "String J JUndefined = ''undefined''"
| "String J (JBool b) = (if b then ''true'' else ''false'')"
| "String J (JNum None) = ''NaN''"
| "String J (JNum (Some r)) = NumberToString J r"
| "String J (JStr s) = s"

text \<open>Truthiness, as \<^verbatim>\<open>||\<close>, \<^verbatim>\<open>&&\<close>, \<^verbatim>\<open>!\<close> and \<^verbatim>\<open>if\<close> read a value.\<close>

fun truthy :: "jsval \<Rightarrow> bool" where
  "truthy JNull = False"
| "truthy JUndefined = False"
| "truthy (JBool b) = b"
| "truthy (JNum None) = False"
| "truthy (JNum (Some r)) = (r \<noteq> 0)"
| "truthy (JStr s) = (s \<noteq> [])"

text \<open>\<^verbatim>\<open>a || b\<close> on cell values.\<close>

definition js_or :: "jsval \<Rightarrow> jsval \<Rightarrow> jsval" where
  "js_or a b = (if truthy a then a else b)"

text \<open>\<^verbatim>\<open>isNaN(n)\<close> on a number.\<close>

definition isNaN :: "number \<Rightarrow> bool" where
  "isNaN n = (n = None)"

text \<open>
  A value of type \<^verbatim>\<open>string | undefined\<close> (an optional axis, the result of
  \<^verbatim>\<open>find\<close>, \<^verbatim>\<open>arr[0]\<close>) is a \<open>string option\<close>; it is falsy when it is
  undefined or the empty string.
\<close>

definition truthy_str :: "string option \<Rightarrow> bool" where
  "truthy_str x = (case x of None \<Rightarrow> False | Some s \<Rightarrow> s \<noteq> [])"

definition or_str :: "string option \<Rightarrow> string option \<Rightarrow> string option" where
  "or_str a b = (if truthy_str a then a else b)"

text \<open>\<^verbatim>\<open>arr[i]\<close>: undefined out of range.\<close>

definition nth_opt :: "'a list \<Rightarrow> nat \<Rightarrow> 'a option" where
  "nth_opt xs i = (if i < length xs then Some (xs ! i) else None)"

text \<open>
  \<^verbatim>\<open>s.trim()\<close>: the white space code units below 256 are tab, line feed, vertical
  tab, form feed, carriage return, space and no-break space.
\<close>

definition is_ws :: "char \<Rightarrow> bool" where
  "is_ws c = (c \<in> set [CHR 0x09, CHR 0x0A, CHR 0x0B, CHR 0x0C, CHR 0x0D, CHR 0x20, CHR 0xA0])"

definition trim :: "string \<Rightarrow> string" where
  "trim s = rev (dropWhile is_ws (rev (dropWhile is_ws s)))"

text \<open>Decimal digits of a natural number (template literals, \<^verbatim>\<open>Date.now()\<close>).\<close>

fun digits :: "nat \<Rightarrow> string" where
  "digits n = (if n < 10 then [''0123456789'' ! n]
               else digits (n div 10) @ [''0123456789'' ! (n mod 10)])"

declare digits.simps [simp del]

section \<open>The table\<close>

datatype coltype = TNumber | TString | TDate | TBoolean

text \<open>
  A row is read only through \<^verbatim>\<open>row[col]\<close>; it is modelled as that reading, which
  is \<^verbatim>\<open>undefined\<close> for a column the row does not have.
\<close>

type_synonym row = "string \<Rightarrow> jsval"

definition row_of :: "(string \<times> jsval) list \<Rightarrow> row" where
  "row_of kvs = (\<lambda>c. case map_of kvs c of Some v \<Rightarrow> v | None \<Rightarrow> JUndefined)"

record ParsedData =
  columns :: "string list"
  rows :: "row list"
  columnTypes :: "string \<Rightarrow> coltype option"

section \<open>Type inference\<close>

subsection \<open>detectColumnTypes (file parsers)\<close>

definition sampleValues :: "row list \<Rightarrow> string \<Rightarrow> jsval list" where
  "sampleValues rs column =
     filter (\<lambda>val. val \<noteq> JNull \<and> val \<noteq> JUndefined \<and> val \<noteq> JStr [])
       (map (\<lambda>row. row column) (take 100 rs))"

definition typeof_number :: "jsval \<Rightarrow> bool" where
  "typeof_number v = (case v of JNum _ \<Rightarrow> True | _ \<Rightarrow> False)"

definition typeof_boolean :: "jsval \<Rightarrow> bool" where
  "typeof_boolean v = (case v of JBool _ \<Rightarrow> True | _ \<Rightarrow> False)"

definition typeof_string :: "jsval \<Rightarrow> bool" where
  "typeof_string v = (case v of JStr _ \<Rightarrow> True | _ \<Rightarrow> False)"

definition allBooleans :: "jsval list \<Rightarrow> bool" where
  "allBooleans vs =
     list_all (\<lambda>val. typeof_boolean val \<or> val = JStr ''true'' \<or> val = JStr ''false''
                      \<or> val = JBool True \<or> val = JBool False) vs"

text \<open>The body of the loop over the columns: numbers are tested first.\<close>

definition detectColumnType :: "js_builtins \<Rightarrow> row list \<Rightarrow> string \<Rightarrow> coltype" where
  "detectColumnType J rs column =
     (let sample = sampleValues rs column in
      if length sample = 0 then TString
      else if list_all (\<lambda>val. typeof_number val \<or> \<not> isNaN (Number J val)) sample then TNumber
      else if allBooleans sample then TBoolean
      else if list_all (\<lambda>val. DateValid J val) sample then TDate
      else TString)"

text \<open>
  The result \<^verbatim>\<open>types\<close> is read as \<^verbatim>\<open>types[col] === 'number'\<close> and the like, so
  it is modelled as the map from a name to the type stored under it. The assignment
  \<^verbatim>\<open>types[column] = ...\<close> stores nothing for the name \<^verbatim>\<open>__proto__\<close>, whose
  setter ignores text.
\<close>

definition detectColumnTypes ::
    "js_builtins \<Rightarrow> row list \<Rightarrow> string list \<Rightarrow> (string \<Rightarrow> coltype option)" where
  "detectColumnTypes J rs cols =
     fold (\<lambda>column types. if column = ''__proto__'' then types
                          else types(column \<mapsto> detectColumnType J rs column)) cols Map.empty"

subsection \<open>convertJsonToParsedData: inference on the cleaned samples\<close>

text \<open>
  The samples of a column are the non-null, non-undefined cleaned cells of the first
  \<^verbatim>\<open>min(100, rows)\<close> rows. Here booleans are tested first.
\<close>

definition colSamples :: "row list \<Rightarrow> string \<Rightarrow> jsval list" where
  "colSamples cleanedRows col =
     filter (\<lambda>v. v \<noteq> JNull \<and> v \<noteq> JUndefined)
       (map (\<lambda>row. row col) (take (min 100 (length cleanedRows)) cleanedRows))"

definition allNumbers :: "js_builtins \<Rightarrow> jsval list \<Rightarrow> bool" where
  "allNumbers J vs =
     list_all (\<lambda>val. case val of
                  JNum _ \<Rightarrow> True
                | JStr s \<Rightarrow> \<not> isNaN (Number J (JStr s)) \<and> trim s \<noteq> []
                | _ \<Rightarrow> False) vs"

definition allDates :: "js_builtins \<Rightarrow> jsval list \<Rightarrow> bool" where
  "allDates J vs =
     list_all (\<lambda>val. case val of
                  JStr s \<Rightarrow> DateValid J (JStr s) \<and> length s > 5
                | _ \<Rightarrow> False) vs"

definition inferColumnType :: "js_builtins \<Rightarrow> row list \<Rightarrow> string \<Rightarrow> coltype" where
  "inferColumnType J cleanedRows col =
     (let samples = colSamples cleanedRows col in
      if length samples = 0 then TString
      else if allBooleans samples then TBoolean
      else if allNumbers J samples then TNumber
      else if allDates J samples then TDate
      else TString)"

section \<open>Regular expressions of the recommender\<close>

text \<open>
  All of them carry the \<^verbatim>\<open>i\<close> flag and use ASCII letters only, so a code unit
  matches a pattern letter exactly when its ASCII lower-case form does.
\<close>

definition toLowerAscii :: "char \<Rightarrow> char" where
  "toLowerAscii c =
     (case map_of (zip ''ABCDEFGHIJKLMNOPQRSTUVWXYZ'' ''abcdefghijklmnopqrstuvwxyz'') c of
        Some l \<Rightarrow> l
      | None \<Rightarrow> c)"

definition lower :: "string \<Rightarrow> string" where
  "lower s = map toLowerAscii s"

definition is_digit :: "char \<Rightarrow> bool" where
  "is_digit c = (let n = (of_char c :: nat) in 48 \<le> n \<and> n \<le> 57)"

definition starts_with :: "string \<Rightarrow> string \<Rightarrow> bool" where
  "starts_with pre s = (take (length pre) s = pre)"

definition ends_with :: "string \<Rightarrow> string \<Rightarrow> bool" where
  "ends_with suf s = (length suf \<le> length s \<and> drop (length s - length suf) s = suf)"

definition contains :: "string \<Rightarrow> string \<Rightarrow> bool" where
  "contains sub s = list_ex (\<lambda>i. take (length sub) (drop i s) = sub) [0..<Suc (length s)]"

text \<open>\<^verbatim>\<open>/^<word>\d+$/i\<close> for a lower-case word.\<close>

definition word_digits :: "string \<Rightarrow> string \<Rightarrow> bool" where
  "word_digits w s =
     (let l = lower s in
      starts_with w l \<and> drop (length w) l \<noteq> [] \<and> list_all is_digit (drop (length w) l))"

text \<open>\<^verbatim>\<open>/^empty\d+$/i\<close> and \<^verbatim>\<open>/^column\d+$/i\<close>\<close>

definition re_empty_digits :: "string \<Rightarrow> bool" where
  "re_empty_digits s = word_digits ''empty'' s"

definition re_column_digits :: "string \<Rightarrow> bool" where
  "re_column_digits s = word_digits ''column'' s"

text \<open>
  The test the code writes as
  \<^verbatim>\<open>!/^empty\d+$/i.test(col) && !/^column\d+$/i.test(col)\<close>.
\<close>

definition meaningful_name :: "string \<Rightarrow> bool" where
  "meaningful_name col = (\<not> re_empty_digits col \<and> \<not> re_column_digits col)"

text \<open>\<^verbatim>\<open>/date|time|year|month|day|week|quarter/i\<close> and the shorter form of the area rule.\<close>

definition re_time_words :: "string \<Rightarrow> bool" where
  "re_time_words s =
     list_ex (\<lambda>w. contains w (lower s))
       [''date'', ''time'', ''year'', ''month'', ''day'', ''week'', ''quarter'']"

definition re_time_words_area :: "string \<Rightarrow> bool" where
  "re_time_words_area s =
     list_ex (\<lambda>w. contains w (lower s)) [''date'', ''time'', ''year'', ''month'', ''day'']"

text \<open>
  \<^verbatim>\<open>IDENTIFIER_PATTERNS = [/^sl_?no$/i, /^id$/i, /_id$/i, /^serial_?no/i, /^index$/i]\<close>
\<close>

definition IDENTIFIER_PATTERNS :: "(string \<Rightarrow> bool) list" where
  "IDENTIFIER_PATTERNS =
     [\<lambda>s. lower s = ''slno'' \<or> lower s = ''sl_no'',
      \<lambda>s. lower s = ''id'',
      \<lambda>s. ends_with ''_id'' (lower s),
      \<lambda>s. starts_with ''serialno'' (lower s) \<or> starts_with ''serial_no'' (lower s),
      \<lambda>s. lower s = ''index'']"

definition isIdentifierColumn :: "string \<Rightarrow> bool" where
  "isIdentifierColumn columnName = list_ex (\<lambda>pattern. pattern columnName) IDENTIFIER_PATTERNS"

section \<open>The recommender\<close>

datatype ChartType = Bar | Line | Pie | Scatter | Area

fun chartTypeName :: "ChartType \<Rightarrow> string" where
  "chartTypeName Bar = ''bar''"
| "chartTypeName Line = ''line''"
| "chartTypeName Pie = ''pie''"
| "chartTypeName Scatter = ''scatter''"
| "chartTypeName Area = ''area''"

record DataFeatures =
  numNumericColumns :: nat
  numStringColumns :: nat
  numDateColumns :: nat
  numBooleanColumns :: nat
  totalColumns :: nat
  totalRows :: nat
  hasTimeSeries :: bool
  hasCategoricalData :: bool
  hasMultipleMetrics :: bool
  dataCompleteness :: number
  uniqueValueRatio :: number
  valueRange :: number
  valueVariance :: number
  hasDateKeywords :: bool
  hasTimeKeywords :: bool
  hasCategoryKeywords :: bool
  hasMetricKeywords :: bool

record ChartRecommendation =
  chartType :: ChartType
  confidence :: real
  xAxis :: "string option"
  yAxis :: "string option"
  dataKey :: "string option"
  title :: string
  reasoning :: string

definition columnsOfType :: "ParsedData \<Rightarrow> coltype \<Rightarrow> string list" where
  "columnsOfType pd ty = filter (\<lambda>col. columnTypes pd col = Some ty) (columns pd)"

text \<open>\<^verbatim>\<open>new Set(rows.map(r => String(r[col] || ''))).size\<close>\<close>

definition uniqueCount :: "js_builtins \<Rightarrow> row list \<Rightarrow> string \<Rightarrow> nat" where
  "uniqueCount J rs col = length (remdups (map (\<lambda>r. String J (js_or (r col) (JStr []))) rs))"

definition barCategoryOk :: "js_builtins \<Rightarrow> row list \<Rightarrow> string \<Rightarrow> bool" where
  "barCategoryOk J rs col =
     (let u = uniqueCount J rs col in
      u \<ge> 2 \<and> u \<le> 20 \<and> real u < real (length rs) * (7 / 10))"

text \<open>The columns the bar rule settles on.\<close>

definition barCategoryCol :: "js_builtins \<Rightarrow> ParsedData \<Rightarrow> string option" where
  "barCategoryCol J pd =
     (let stringColumns = columnsOfType pd TString;
          goodStringColumns = filter (\<lambda>col. \<not> isIdentifierColumn col) stringColumns
      in or_str (or_str (or_str
           (find (barCategoryOk J (rows pd)) goodStringColumns)
           (find (\<lambda>col. uniqueCount J (rows pd) col > 1) goodStringColumns))
           (find (barCategoryOk J (rows pd)) stringColumns))
           (nth_opt stringColumns 0))"

definition barValueCol :: "ParsedData \<Rightarrow> string option" where
  "barValueCol pd =
     (let numericColumns = columnsOfType pd TNumber;
          goodNumericColumns = filter (\<lambda>col. \<not> isIdentifierColumn col) numericColumns
      in or_str (or_str
           (find meaningful_name goodNumericColumns)
           (find meaningful_name numericColumns))
           (nth_opt numericColumns 0))"

definition recommendBar :: "js_builtins \<Rightarrow> ParsedData \<Rightarrow> DataFeatures \<Rightarrow> ChartRecommendation list" where
  "recommendBar J pd features =
     (if hasCategoricalData features \<and> numNumericColumns features > 0 then
        (case (barCategoryCol J pd, barValueCol pd) of
           (Some categoryCol, Some valueCol) \<Rightarrow>
             if categoryCol \<noteq> [] \<and> valueCol \<noteq> []
                \<and> \<not> isIdentifierColumn categoryCol \<and> \<not> isIdentifierColumn valueCol
                \<and> \<not> re_empty_digits categoryCol \<and> \<not> re_column_digits categoryCol
             then [\<lparr>chartType = Bar, confidence = 95 / 100, xAxis = Some categoryCol,
                    yAxis = Some valueCol, dataKey = None,
                    title = valueCol @ '' by '' @ categoryCol,
                    reasoning = ''Categorical data with numeric metrics - ideal for bar charts showing comparisons''\<rparr>]
             else []
         | _ \<Rightarrow> [])
      else [])"

text \<open>The columns the first branch of the line rule settles on.\<close>

definition lineTimeCol :: "ParsedData \<Rightarrow> string option" where
  "lineTimeCol pd =
     (let numericColumns = columnsOfType pd TNumber;
          dateColumns = columnsOfType pd TDate;
          goodNumericColumns = filter (\<lambda>col. \<not> isIdentifierColumn col) numericColumns
      in or_str (or_str (or_str
           (nth_opt dateColumns 0)
           (find (\<lambda>col. re_time_words col \<and> \<not> isIdentifierColumn col) (columns pd)))
           (nth_opt goodNumericColumns 0))
           (nth_opt numericColumns 0))"

definition lineValueCol :: "ParsedData \<Rightarrow> string option" where
  "lineValueCol pd =
     (let numericColumns = columnsOfType pd TNumber;
          goodNumericColumns = filter (\<lambda>col. \<not> isIdentifierColumn col) numericColumns;
          timeCol = lineTimeCol pd
      in or_str (or_str
           (find (\<lambda>col. Some col \<noteq> timeCol) goodNumericColumns)
           (find (\<lambda>col. Some col \<noteq> timeCol \<and> \<not> isIdentifierColumn col) numericColumns))
           (nth_opt numericColumns 0))"

definition recommendLine :: "ParsedData \<Rightarrow> DataFeatures \<Rightarrow> ChartRecommendation list" where
  "recommendLine pd features =
     (let numericColumns = columnsOfType pd TNumber;
          goodNumericColumns = filter (\<lambda>col. \<not> isIdentifierColumn col) numericColumns in
      if hasTimeSeries features \<and> numNumericColumns features > 0 then
        (case (lineTimeCol pd, lineValueCol pd) of
           (Some timeCol, Some valueCol) \<Rightarrow>
             if timeCol \<noteq> [] \<and> valueCol \<noteq> [] \<and> \<not> isIdentifierColumn valueCol
             then [\<lparr>chartType = Line, confidence = 95 / 100, xAxis = Some timeCol,
                    yAxis = Some valueCol, dataKey = None, title = valueCol @ '' over Time'',
                    reasoning = ''Time series data detected - line chart shows trends over time''\<rparr>]
             else []
         | _ \<Rightarrow> [])
      else if numNumericColumns features \<ge> 2 \<and> totalRows features > 10 then
        (if length goodNumericColumns \<ge> 2 then
           [\<lparr>chartType = Line, confidence = 75 / 100,
             xAxis = Some (goodNumericColumns ! 0), yAxis = Some (goodNumericColumns ! 1),
             dataKey = None,
             title = goodNumericColumns ! 1 @ '' vs '' @ goodNumericColumns ! 0,
             reasoning = ''Multiple numeric columns with sufficient data points for trend analysis''\<rparr>]
         else if length numericColumns \<ge> 2 then
           [\<lparr>chartType = Line, confidence = 65 / 100,
             xAxis = Some (numericColumns ! 0), yAxis = Some (numericColumns ! 1),
             dataKey = None,
             title = numericColumns ! 1 @ '' vs '' @ numericColumns ! 0,
             reasoning = ''Multiple numeric columns with sufficient data points for trend analysis''\<rparr>]
         else [])
      else [])"

definition pieCategoryOk :: "js_builtins \<Rightarrow> row list \<Rightarrow> string \<Rightarrow> bool" where
  "pieCategoryOk J rs col = (let u = uniqueCount J rs col in u \<ge> 2 \<and> u \<le> 10)"

definition pieCategoryCol :: "js_builtins \<Rightarrow> ParsedData \<Rightarrow> string option" where
  "pieCategoryCol J pd =
     (let stringColumns = columnsOfType pd TString;
          goodStringColumns = filter (\<lambda>col. \<not> isIdentifierColumn col) stringColumns
      in or_str (or_str
           (find (pieCategoryOk J (rows pd)) goodStringColumns)
           (find (\<lambda>col. pieCategoryOk J (rows pd) col \<and> \<not> isIdentifierColumn col) stringColumns))
           (nth_opt stringColumns 0))"

definition recommendPie :: "js_builtins \<Rightarrow> ParsedData \<Rightarrow> DataFeatures \<Rightarrow> ChartRecommendation list" where
  "recommendPie J pd features =
     (let numericColumns = columnsOfType pd TNumber;
          stringColumns = columnsOfType pd TString in
      if hasCategoricalData features \<and> length stringColumns > 0 \<and> length numericColumns = 0 then
        (case pieCategoryCol J pd of
           Some categoryCol \<Rightarrow>
             if categoryCol \<noteq> [] \<and> \<not> isIdentifierColumn categoryCol then
               (let uniqueCount' = uniqueCount J (rows pd) categoryCol in
                if uniqueCount' \<ge> 2 \<and> uniqueCount' \<le> 10 \<and> length numericColumns = 0 then
                  [\<lparr>chartType = Pie, confidence = 65 / 100, xAxis = None, yAxis = None,
                    dataKey = Some ''value'', title = ''Distribution of '' @ categoryCol,
                    reasoning = ''Categorical distribution with '' @ digits uniqueCount'
                                @ '' categories - suitable for pie chart''\<rparr>]
                else [])
             else []
         | None \<Rightarrow> [])
      else [])"

definition recommendScatter :: "ParsedData \<Rightarrow> DataFeatures \<Rightarrow> ChartRecommendation list" where
  "recommendScatter pd features =
     (let numericColumns = columnsOfType pd TNumber;
          goodNumericColumns = filter (\<lambda>col. \<not> isIdentifierColumn col) numericColumns in
      if numNumericColumns features \<ge> 2 \<and> totalRows features \<ge> 20 then
        (if length goodNumericColumns \<ge> 2 then
           [\<lparr>chartType = Scatter, confidence = 8 / 10,
             xAxis = Some (goodNumericColumns ! 0), yAxis = Some (goodNumericColumns ! 1),
             dataKey = None,
             title = goodNumericColumns ! 0 @ '' vs '' @ goodNumericColumns ! 1,
             reasoning = ''Two numeric variables with sufficient data points - ideal for correlation analysis''\<rparr>]
         else if length numericColumns \<ge> 2 then
           [\<lparr>chartType = Scatter, confidence = 6 / 10,
             xAxis = Some (numericColumns ! 0), yAxis = Some (numericColumns ! 1),
             dataKey = None,
             title = numericColumns ! 0 @ '' vs '' @ numericColumns ! 1,
             reasoning = ''Two numeric variables with sufficient data points - ideal for correlation analysis''\<rparr>]
         else [])
      else [])"

definition areaTimeCol :: "ParsedData \<Rightarrow> string option" where
  "areaTimeCol pd =
     or_str (nth_opt (columnsOfType pd TDate) 0)
       (find (\<lambda>col. re_time_words_area col \<and> \<not> isIdentifierColumn col) (columns pd))"

definition areaValueCol :: "ParsedData \<Rightarrow> string option" where
  "areaValueCol pd =
     (let numericColumns = columnsOfType pd TNumber;
          goodNumericColumns = filter (\<lambda>col. \<not> isIdentifierColumn col) numericColumns
      in or_str (nth_opt goodNumericColumns 0) (nth_opt numericColumns 0))"

definition recommendArea :: "ParsedData \<Rightarrow> DataFeatures \<Rightarrow> ChartRecommendation list" where
  "recommendArea pd features =
     (if hasTimeSeries features \<and> numNumericColumns features > 0 then
        (case (areaTimeCol pd, areaValueCol pd) of
           (Some timeCol, Some valueCol) \<Rightarrow>
             if timeCol \<noteq> [] \<and> valueCol \<noteq> [] \<and> \<not> isIdentifierColumn valueCol
             then [\<lparr>chartType = Area, confidence = 7 / 10, xAxis = Some timeCol,
                    yAxis = Some valueCol, dataKey = None, title = valueCol @ '' Trend (Area)'',
                    reasoning = ''Time series data - area chart emphasizes volume and trends''\<rparr>]
             else []
         | _ \<Rightarrow> [])
      else [])"

text \<open>The list \<^verbatim>\<open>recommendations\<close> as the five rules have pushed to it, before the sort.\<close>

definition recommendations ::
    "js_builtins \<Rightarrow> ParsedData \<Rightarrow> DataFeatures \<Rightarrow> ChartRecommendation list" where
  "recommendations J pd features =
     recommendBar J pd features @ recommendLine pd features @ recommendPie J pd features
     @ recommendScatter pd features @ recommendArea pd features"

text \<open>
  \<^verbatim>\<open>recommendations.sort((a, b) => b.confidence - a.confidence)\<close>: the sort of the
  language is stable, and the comparator orders by descending confidence.
\<close>

definition recommendCharts ::
    "js_builtins \<Rightarrow> ParsedData \<Rightarrow> DataFeatures \<Rightarrow> ChartRecommendation list" where
  "recommendCharts J pd features =
     sort_key (\<lambda>r. - confidence r) (recommendations J pd features)"

section \<open>Feature extraction\<close>

text \<open>
  \<^verbatim>\<open>s.toLowerCase()\<close> on code units below 256: the ASCII capitals and the Latin-1
  capitals (192 to 222 without the multiplication sign 215) move up by 32.
\<close>

definition toLowerCase :: "string \<Rightarrow> string" where
  "toLowerCase s =
     map (\<lambda>c. let n = (of_char c :: nat) in
               if 192 \<le> n \<and> n \<le> 222 \<and> n \<noteq> 215 then char_of (n + 32)
               else toLowerAscii c) s"

definition re_any_word :: "string list \<Rightarrow> string \<Rightarrow> bool" where
  "re_any_word ws s = list_ex (\<lambda>w. contains w (lower s)) ws"

text \<open>\<^verbatim>\<open>rows.map(row => Number(row[col])).filter(v => !isNaN(v))\<close>\<close>

definition numericValues :: "js_builtins \<Rightarrow> row list \<Rightarrow> string \<Rightarrow> real list" where
  "numericValues J rs col = List.map_filter (\<lambda>row. Number J (row col)) rs"

definition mean :: "real list \<Rightarrow> real" where
  "mean vs = sum_list vs / real (length vs)"

definition variance :: "real list \<Rightarrow> real" where
  "variance vs = sum_list (map (\<lambda>v. (v - mean vs) ^ 2) vs) / real (length vs)"

text \<open>\<^verbatim>\<open>Math.max(...values) - Math.min(...values)\<close> for a non-empty list.\<close>

definition range_of :: "real list \<Rightarrow> real" where
  "range_of vs = fold max vs (hd vs) - fold min vs (hd vs)"

definition filled :: "jsval \<Rightarrow> bool" where
  "filled v = (v \<noteq> JNull \<and> v \<noteq> JUndefined \<and> v \<noteq> JStr [])"

definition extractFeatures :: "js_builtins \<Rightarrow> ParsedData \<Rightarrow> DataFeatures" where
  "extractFeatures J pd =
     (let numericColumns = columnsOfType pd TNumber;
          stringColumns = columnsOfType pd TString;
          dateColumns = columnsOfType pd TDate;
          booleanColumns = columnsOfType pd TBoolean;
          uniqueRatios = map (\<lambda>col. real (uniqueCount J (rows pd) col)
                                     / real (max (length (rows pd)) 1)) (columns pd);
          avgUniqueRatio = (if uniqueRatios = [] then None
                            else Some (sum_list uniqueRatios / real (length uniqueRatios)));
          measured = filter (\<lambda>vs. length vs > 0)
                       (map (numericValues J (rows pd)) numericColumns);
          ranges = map range_of measured;
          variances = map variance measured;
          valueRange' = (if length numericColumns > 0 \<and> length ranges > 0 then mean ranges else 0);
          valueVariance' = (if length numericColumns > 0 \<and> length variances > 0
                            then mean variances else 0);
          totalCells = length (rows pd) * length (columns pd);
          filledCells = sum_list (map (\<lambda>row. length (filter (\<lambda>col. filled (row col)) (columns pd)))
                                   (rows pd));
          columnNamesLower = map toLowerCase (columns pd)
      in \<lparr>numNumericColumns = length numericColumns,
          numStringColumns = length stringColumns,
          numDateColumns = length dateColumns,
          numBooleanColumns = length booleanColumns,
          totalColumns = length (columns pd),
          totalRows = length (rows pd),
          hasTimeSeries = (length dateColumns > 0 \<or> list_ex re_time_words (columns pd)),
          hasCategoricalData =
            (length stringColumns > 0
             \<and> list_ex (\<lambda>col. real (uniqueCount J (rows pd) col) < real (length (rows pd)) * (1 / 2))
                   stringColumns),
          hasMultipleMetrics = (length numericColumns > 1),
          dataCompleteness = Some (if totalCells > 0 then real filledCells / real totalCells else 1),
          uniqueValueRatio = avgUniqueRatio,
          valueRange = Some valueRange',
          valueVariance = Some valueVariance',
          hasDateKeywords = list_ex (re_any_word
            [''date'', ''time'', ''year'', ''month'', ''day'', ''week'', ''quarter'', ''period''])
            columnNamesLower,
          hasTimeKeywords = list_ex (re_any_word
            [''time'', ''hour'', ''minute'', ''second'', ''timestamp'']) columnNamesLower,
          hasCategoryKeywords = list_ex (re_any_word
            [''category'', ''type'', ''class'', ''group'', ''status'', ''label'', ''name''])
            columnNamesLower,
          hasMetricKeywords = list_ex (re_any_word
            [''value'', ''amount'', ''price'', ''cost'', ''revenue'', ''sales'', ''count'', ''total'',
             ''sum'', ''avg'', ''average'', ''metric'', ''score'', ''rating'']) columnNamesLower\<rparr>)"

section \<open>Plain objects used as dictionaries\<close>

text \<open>
  \<^verbatim>\<open>aggregated\<close> and \<^verbatim>\<open>counts\<close> are object literals \<^verbatim>\<open>{}\<close> indexed by cell
  text. Two rules of the language show through:
  \<^item> \<^verbatim>\<open>Object.entries\<close> lists the own keys that are array indices (canonical decimal
    integers up to \<open>2^32 - 2\<close>) first, in ascending numeric order, and the other keys after
    them in creation order;
  \<^item> reading a key that is not an own property finds the members that every object
    inherits from \<^verbatim>\<open>Object.prototype\<close>.
  An object is the list of its own properties in the order \<^verbatim>\<open>Object.entries\<close> gives.
\<close>

definition dec_value :: "string \<Rightarrow> nat" where
  "dec_value k = foldl (\<lambda>n c. 10 * n + (of_char c - 48)) 0 k"

definition array_index :: "string \<Rightarrow> nat option" where
  "array_index k =
     (if k \<noteq> [] \<and> list_all is_digit k \<and> (k = ''0'' \<or> hd k \<noteq> CHR ''0'')
         \<and> dec_value k \<le> 4294967294
      then Some (dec_value k) else None)"

text \<open>Creating the own property \<open>k\<close> of an object that does not have it.\<close>

fun obj_insert :: "string \<Rightarrow> 'v \<Rightarrow> (string \<times> 'v) list \<Rightarrow> (string \<times> 'v) list" where
  "obj_insert k v [] = [(k, v)]"
| "obj_insert k v ((k', v') # rest) =
     (case array_index k of
        None \<Rightarrow> (k', v') # obj_insert k v rest
      | Some n \<Rightarrow>
          (case array_index k' of
             Some m \<Rightarrow> if m < n then (k', v') # obj_insert k v rest else (k, v) # (k', v') # rest
           | None \<Rightarrow> (k, v) # (k', v') # rest))"

text \<open>Overwriting the own property \<open>k\<close>.\<close>

definition obj_update :: "string \<Rightarrow> 'v \<Rightarrow> (string \<times> 'v) list \<Rightarrow> (string \<times> 'v) list" where
  "obj_update k v obj = map (\<lambda>(k', v'). if k' = k then (k', v) else (k', v')) obj"

text \<open>Defining a property of an object literal: \<^verbatim>\<open>{[k]: v}\<close>.\<close>

definition obj_define :: "string \<Rightarrow> 'v \<Rightarrow> (string \<times> 'v) list \<Rightarrow> (string \<times> 'v) list" where
  "obj_define k v obj = (if map_of obj k = None then obj_insert k v obj else obj_update k v obj)"

text \<open>The names every object inherits (the members of \<^verbatim>\<open>Object.prototype\<close>).\<close>

definition Object_prototype_keys :: "string list" where
  "Object_prototype_keys =
     [''constructor'', ''__defineGetter__'', ''__defineSetter__'', ''hasOwnProperty'',
      ''__lookupGetter__'', ''__lookupSetter__'', ''isPrototypeOf'', ''propertyIsEnumerable'',
      ''toString'', ''valueOf'', ''__proto__'', ''toLocaleString'']"

definition inherited :: "string \<Rightarrow> bool" where
  "inherited k = List.member Object_prototype_keys k"

section \<open>The materializer\<close>

text \<open>A row of chart data is an object with one or two keys.\<close>

type_synonym datum = "(string \<times> jsval) list"

record ChartConfig =
  cfg_id :: string
  cfg_type :: ChartType
  cfg_title :: string
  cfg_xAxis :: "string option"
  cfg_yAxis :: "string option"
  cfg_dataKey :: "string option"
  cfg_data :: "datum list"

text \<open>
  \<open>TypeError\<close> is the exception of calling \<^verbatim>\<open>push\<close> on an inherited member.
  The other two are not exceptions; they mark where the model stops.
  \<open>NonNumericCount\<close>: a pie count was started from an inherited member, so it is a
  piece of text, the comparator of the sort yields NaN on it, and the language leaves the
  order of the entries to the implementation.
  \<open>PrototypeWrite\<close>: an assignment through the name \<^verbatim>\<open>__proto__\<close> has written a
  property of \<^verbatim>\<open>Object.prototype\<close>, which every object of the process inherits
  from then on.
\<close>

datatype failure = TypeError | NonNumericCount | PrototypeWrite

text \<open>\<^verbatim>\<open>String(row[axis] || 'Unknown').trim()\<close>\<close>

definition categoryOf :: "js_builtins \<Rightarrow> string \<Rightarrow> row \<Rightarrow> string" where
  "categoryOf J axis row = trim (String J (js_or (row axis) (JStr ''Unknown'')))"

text \<open>\<^verbatim>\<open>Number(row[axis]) || 0\<close>\<close>

definition valueOf :: "js_builtins \<Rightarrow> string \<Rightarrow> row \<Rightarrow> real" where
  "valueOf J axis row = (case Number J (row axis) of None \<Rightarrow> 0 | Some v \<Rightarrow> v)"

text \<open>The loop that fills \<^verbatim>\<open>aggregated\<close>.\<close>

fun aggregate ::
    "js_builtins \<Rightarrow> string \<Rightarrow> string \<Rightarrow> row list \<Rightarrow> (string \<times> real list) list
     \<Rightarrow> failure + (string \<times> real list) list" where
  "aggregate J x y [] aggregated = Inr aggregated"
| "aggregate J x y (row # rs) aggregated =
     (let category = categoryOf J x row; value = valueOf J y row in
      case map_of aggregated category of
        Some values \<Rightarrow> aggregate J x y rs (obj_update category (values @ [value]) aggregated)
      | None \<Rightarrow>
          if inherited category then Inl TypeError
          else aggregate J x y rs (obj_insert category [value] aggregated))"

text \<open>\<^verbatim>\<open>{[finalXAxis]: category, [finalYAxis]: m}\<close>\<close>

definition barDatum :: "string \<Rightarrow> string \<Rightarrow> string \<Rightarrow> real \<Rightarrow> datum" where
  "barDatum x y category m = obj_define y (JNum (Some m)) (obj_define x (JStr category) [])"

definition barData :: "string \<Rightarrow> string \<Rightarrow> (string \<times> real list) list \<Rightarrow> datum list" where
  "barData x y aggregated =
     take 20 (map (\<lambda>(category, values).
                     barDatum x y category (sum_list values / real (length values))) aggregated)"

text \<open>
  The loop that fills \<^verbatim>\<open>counts\<close> with \<^verbatim>\<open>counts[value] = (counts[value] || 0) + 1\<close>.
  For the name \<^verbatim>\<open>__proto__\<close> the assignment stores nothing (the setter ignores text);
  for any other inherited name the stored count is text, which ends in \<open>NonNumericCount\<close>.
\<close>

fun countValues ::
    "js_builtins \<Rightarrow> string \<Rightarrow> row list \<Rightarrow> (string \<times> nat) list
     \<Rightarrow> failure + (string \<times> nat) list" where
  "countValues J x [] counts = Inr counts"
| "countValues J x (row # rs) counts =
     (let v = categoryOf J x row in
      if v \<noteq> [] \<and> v \<noteq> ''Unknown'' then
        (case map_of counts v of
           Some n \<Rightarrow> countValues J x rs (obj_update v (n + 1) counts)
         | None \<Rightarrow>
             if v = ''__proto__'' then countValues J x rs counts
             else if inherited v then Inl NonNumericCount
             else countValues J x rs (obj_insert v 1 counts))
      else countValues J x rs counts)"

text \<open>
  \<^verbatim>\<open>.map(([name, value]) => ({name, value})).sort((a, b) => b.value - a.value).slice(0, 15)\<close>
\<close>

definition pieData :: "(string \<times> nat) list \<Rightarrow> datum list" where
  "pieData counts =
     map (\<lambda>(name, value). [(''name'', JStr name), (''value'', JNum (Some (real value)))])
       (take 15 (sort_key (\<lambda>(name, value). - int value) counts))"

definition pairOk :: "js_builtins \<Rightarrow> string \<Rightarrow> string \<Rightarrow> row \<Rightarrow> bool" where
  "pairOk J x y row =
     (let xVal = row x; yVal = row y in
      xVal \<noteq> JNull \<and> yVal \<noteq> JNull \<and> xVal \<noteq> JUndefined \<and> yVal \<noteq> JUndefined
      \<and> \<not> isNaN (Number J xVal) \<and> \<not> isNaN (Number J yVal))"

definition pairDatum :: "js_builtins \<Rightarrow> string \<Rightarrow> string \<Rightarrow> row \<Rightarrow> datum" where
  "pairDatum J x y row =
     obj_define y (JNum (Number J (row y))) (obj_define x (JNum (Number J (row x))) [])"

definition pairData :: "js_builtins \<Rightarrow> nat \<Rightarrow> string \<Rightarrow> string \<Rightarrow> row list \<Rightarrow> datum list" where
  "pairData J cap x y rs = take cap (map (pairDatum J x y) (filter (pairOk J x y) rs))"

text \<open>The default of an omitted categorical or numeric axis.\<close>

definition defaultAxis :: "string list \<Rightarrow> string list \<Rightarrow> string option" where
  "defaultAxis good all =
     or_str (or_str (find meaningful_name good) (find meaningful_name all)) (nth_opt all 0)"

definition defaultPairY :: "string option \<Rightarrow> string list \<Rightarrow> string list \<Rightarrow> string option" where
  "defaultPairY finalXAxis good all =
     or_str (or_str (or_str
       (find (\<lambda>col. Some col \<noteq> finalXAxis \<and> meaningful_name col) good)
       (find (\<lambda>col. Some col \<noteq> finalXAxis \<and> meaningful_name col) all))
       (nth_opt all 1))
       (nth_opt all 0)"

text \<open>\<open>finalXAxis\<close> and \<open>finalYAxis\<close> as the branch of the chart type sets them.\<close>

definition finalXAxis :: "ParsedData \<Rightarrow> ChartType \<Rightarrow> string option \<Rightarrow> string option" where
  "finalXAxis pd ct xAxis' =
     (let numericColumns = columnsOfType pd TNumber;
          stringColumns = columnsOfType pd TString;
          goodNumericColumns = filter (\<lambda>col. \<not> isIdentifierColumn col) numericColumns;
          goodStringColumns = filter (\<lambda>col. \<not> isIdentifierColumn col) stringColumns
      in if truthy_str xAxis' then xAxis'
         else (case ct of
                 Bar \<Rightarrow> defaultAxis goodStringColumns stringColumns
               | Pie \<Rightarrow> defaultAxis goodStringColumns stringColumns
               | Scatter \<Rightarrow> defaultAxis goodNumericColumns numericColumns
               | Line \<Rightarrow> defaultAxis goodNumericColumns numericColumns
               | Area \<Rightarrow> xAxis'))"

definition finalYAxis ::
    "ParsedData \<Rightarrow> ChartType \<Rightarrow> string option \<Rightarrow> string option \<Rightarrow> string option" where
  "finalYAxis pd ct xAxis' yAxis' =
     (let numericColumns = columnsOfType pd TNumber;
          goodNumericColumns = filter (\<lambda>col. \<not> isIdentifierColumn col) numericColumns
      in if truthy_str yAxis' then yAxis'
         else (case ct of
                 Bar \<Rightarrow> defaultAxis goodNumericColumns numericColumns
               | Pie \<Rightarrow> yAxis'
               | Scatter \<Rightarrow> defaultPairY (finalXAxis pd ct xAxis') goodNumericColumns numericColumns
               | Line \<Rightarrow> defaultPairY (finalXAxis pd ct xAxis') goodNumericColumns numericColumns
               | Area \<Rightarrow> yAxis'))"

definition finish ::
    "nat \<Rightarrow> ChartType \<Rightarrow> string \<Rightarrow> string option \<Rightarrow> string option \<Rightarrow> string option
     \<Rightarrow> datum list \<Rightarrow> ChartConfig option" where
  "finish now ct ttl fx fy fk dat =
     (if length dat = 0 then None
      else Some \<lparr>cfg_id = chartTypeName ct @ ''-'' @ digits now, cfg_type = ct, cfg_title = ttl,
                 cfg_xAxis = fx, cfg_yAxis = fy, cfg_dataKey = fk, cfg_data = dat\<rparr>)"

text \<open>
  \<open>generateChart\<close>. \<open>now\<close> is the reading of \<^verbatim>\<open>Date.now()\<close> at the return
  statement; an omitted argument is \<open>None\<close>. \<open>Inr None\<close> is the result
  \<^verbatim>\<open>null\<close>.
\<close>

definition generateChart ::
    "js_builtins \<Rightarrow> nat \<Rightarrow> ParsedData \<Rightarrow> ChartType \<Rightarrow> string option \<Rightarrow> string option
     \<Rightarrow> string option \<Rightarrow> failure + ChartConfig option" where
  "generateChart J now pd ct xAxis' yAxis' dataKey' =
     (let fx = finalXAxis pd ct xAxis'; fy = finalYAxis pd ct xAxis' yAxis' in
      case ct of
        Bar \<Rightarrow>
          (if \<not> truthy_str fx \<or> \<not> truthy_str fy then Inr None
           else (let x = the fx; y = the fy in
                 case aggregate J x y (rows pd) [] of
                   Inl e \<Rightarrow> Inl e
                 | Inr aggregated \<Rightarrow>
                     Inr (finish now ct (y @ '' by '' @ x) fx fy dataKey' (barData x y aggregated))))
      | Pie \<Rightarrow>
          (if \<not> truthy_str fx then Inr None
           else (let x = the fx in
                 case countValues J x (rows pd) [] of
                   Inl e \<Rightarrow> Inl e
                 | Inr counts \<Rightarrow>
                     Inr (finish now ct (''Distribution of '' @ x) fx fy (Some ''value'')
                            (pieData counts))))
      | Area \<Rightarrow> Inr (finish now ct [] fx fy dataKey' [])
      | _ \<Rightarrow>
          (if \<not> truthy_str fx \<or> \<not> truthy_str fy then Inr None
           else (let x = the fx; y = the fy in
                 Inr (finish now ct
                        (if ct = Scatter then y @ '' vs '' @ x else y @ '' over '' @ x)
                        fx fy dataKey'
                        (pairData J (if ct = Scatter then 200 else 100) x y (rows pd))))))"

section \<open>The route that creates a custom chart\<close>

text \<open>
  The handler of \<^verbatim>\<open>POST /api/analysis/:id/chart\<close>. The fields of the request body
  are optional strings; \<open>analysis\<close> is what the storage returns for the id, reduced to
  its \<^verbatim>\<open>parsedData\<close>.
\<close>

text \<open>
  \<open>JsonTextCount\<close> stands for the answer with status 200 whose pie payload holds a text
  in the place of a count (the outcome \<open>NonNumericCount\<close> of \<open>generateChart\<close>).
\<close>

datatype response =
  Status400 string | Status404 string | Status500 string | Json ChartConfig | JsonTextCount

definition parseChartType :: "string \<Rightarrow> ChartType option" where
  "parseChartType s =
     (if s = ''bar'' then Some Bar else if s = ''line'' then Some Line
      else if s = ''pie'' then Some Pie else if s = ''scatter'' then Some Scatter else None)"

definition createChartRoute ::
    "js_builtins \<Rightarrow> nat \<Rightarrow> ParsedData option \<Rightarrow> string option \<Rightarrow> string option \<Rightarrow> string option
     \<Rightarrow> string option \<Rightarrow> response" where
  "createChartRoute J now analysis chartType' xAxis' yAxis' dataKey' =
     (case (if truthy_str chartType' then parseChartType (the chartType') else None) of
        None \<Rightarrow> Status400 ''Valid chartType is required (bar, line, pie, scatter)''
      | Some ct \<Rightarrow>
          (case analysis of
             None \<Rightarrow> Status404 ''Analysis not found''
           | Some pd \<Rightarrow>
               if truthy_str xAxis' \<and> \<not> List.member (columns pd) (the xAxis')
               then Status400 (''Column \"'' @ the xAxis' @ ''\" not found in dataset'')
               else if truthy_str yAxis' \<and> \<not> List.member (columns pd) (the yAxis')
               then Status400 (''Column \"'' @ the yAxis' @ ''\" not found in dataset'')
               else (case generateChart J now pd ct xAxis' yAxis' dataKey' of
                       Inl NonNumericCount \<Rightarrow> JsonTextCount
                     | Inl e \<Rightarrow> Status500 ''Failed to create chart''
                     | Inr None \<Rightarrow> Status400 ''Could not generate chart with selected axes. Check that axes are compatible with chart type.''
                     | Inr (Some chart) \<Rightarrow> Json chart)))"

section \<open>Bar aggregation as the specification words it\<close>

text \<open>The distinct elements of a list in the order of their first occurrence.\<close>

definition first_seen :: "'a list \<Rightarrow> 'a list" where
  "first_seen xs = fold (\<lambda>x acc. if List.member acc x then acc else acc @ [x]) xs []"

text \<open>
  Rows grouped by category, the groups in first-seen order, each with the mean of the
  values of its rows, cut to the first 20.
\<close>

definition valuesOf :: "js_builtins \<Rightarrow> string \<Rightarrow> string \<Rightarrow> row list \<Rightarrow> string \<Rightarrow> real list" where
  "valuesOf J x y rs c = map (valueOf J y) (filter (\<lambda>r. categoryOf J x r = c) rs)"

definition groupsOf :: "js_builtins \<Rightarrow> string \<Rightarrow> string \<Rightarrow> row list \<Rightarrow> (string \<times> real list) list" where
  "groupsOf J x y rs = map (\<lambda>c. (c, valuesOf J x y rs c)) (first_seen (map (categoryOf J x) rs))"

definition firstSeenMeans :: "js_builtins \<Rightarrow> string \<Rightarrow> string \<Rightarrow> row list \<Rightarrow> datum list" where
  "firstSeenMeans J x y rs =
     take 20 (map (\<lambda>(c, vs). barDatum x y c (mean vs)) (groupsOf J x y rs))"

section \<open>An instance of the built-ins for the worked examples\<close>

text \<open>
  Exact on text that is blank or an unsigned decimal integer, and on integer values;
  numbers, booleans and \<^verbatim>\<open>null\<close> make valid dates. The examples stay within that
  range and contain no date text.
\<close>

definition example_builtins :: js_builtins where
  "example_builtins =
     \<lparr>StringToNumber =
        (\<lambda>s. if trim s = [] then Some 0
              else if list_all is_digit (trim s) then Some (real (dec_value (trim s))) else None),
      NumberToString =
        (\<lambda>r. if r < 0 then CHR ''-'' # digits (nat \<lfloor>- r\<rfloor>) else digits (nat \<lfloor>r\<rfloor>)),
      DateValid =
        (\<lambda>v. case v of JNum (Some r) \<Rightarrow> True | JBool b \<Rightarrow> True | JNull \<Rightarrow> True | _ \<Rightarrow> False)\<rparr>"

definition table :: "string list \<Rightarrow> (string \<times> coltype) list \<Rightarrow> (string \<times> jsval) list list \<Rightarrow> ParsedData" where
  "table cols types rs = \<lparr>columns = cols, rows = map row_of rs, columnTypes = map_of types\<rparr>"

text \<open>The table of the bar example of the specification.\<close>

definition cat_val_table :: ParsedData where
  "cat_val_table =
     table [''cat'', ''val''] [(''cat'', TString), (''val'', TNumber)]
       [[(''cat'', JStr ''A''), (''val'', JNum (Some 10))],
        [(''cat'', JStr ''A''), (''val'', JNum (Some 20))],
        [(''cat'', JStr ''B''), (''val'', JNum (Some 5))]]"

text \<open>
  Bar tables whose categories are years with stray blanks next to other text and a row
  with \<^verbatim>\<open>null\<close> for the category and no value, and the name of an inherited
  member.
\<close>

definition years_table :: ParsedData where
  "years_table =
     table [''cat'', ''val''] [(''cat'', TString), (''val'', TNumber)]
       [[(''cat'', JStr '' 2021''), (''val'', JNum (Some 1))],
        [(''cat'', JStr ''n/a''), (''val'', JNum (Some 5))],
        [(''cat'', JStr ''2019''), (''val'', JNum (Some 2))],
        [(''cat'', JStr ''2021 ''), (''val'', JNum (Some 3))],
        [(''cat'', JNull)]]"

definition constructor_cell_table :: ParsedData where
  "constructor_cell_table =
     table [''cat'', ''val''] [(''cat'', TString), (''val'', TNumber)]
       [[(''cat'', JStr ''constructor''), (''val'', JNum (Some 1))]]"

text \<open>A table whose only numeric column carries a placeholder name.\<close>

definition region_table :: ParsedData where
  "region_table =
     table [''region'', ''Column1''] [(''region'', TString), (''Column1'', TNumber)]
       [[(''region'', JStr ''North''), (''Column1'', JNum (Some 3))],
        [(''region'', JStr ''South''), (''Column1'', JNum (Some 4))],
        [(''region'', JStr ''North''), (''Column1'', JNum (Some 5))],
        [(''region'', JStr ''South''), (''Column1'', JNum (Some 6))],
        [(''region'', JStr ''North''), (''Column1'', JNum (Some 7))]]"

text \<open>A table of 20 rows with one categorical and two numeric columns.\<close>

definition sales_table :: ParsedData where
  "sales_table =
     table [''region'', ''price'', ''units'']
       [(''region'', TString), (''price'', TNumber), (''units'', TNumber)]
       (concat (replicate 10
          [[(''region'', JStr ''North''), (''price'', JNum (Some 3)), (''units'', JNum (Some 40))],
           [(''region'', JStr ''South''), (''price'', JNum (Some 5)), (''units'', JNum (Some 25))]]))"

text \<open>A table of 500 rows with two numeric columns and no string column.\<close>

definition pairs_table :: ParsedData where
  "pairs_table =
     \<lparr>columns = [''a'', ''b''],
      rows = map (\<lambda>i. row_of [(''a'', JNum (Some (real i))), (''b'', JNum (Some (2 * real i)))])
               [0..<500],
      columnTypes = map_of [(''a'', TNumber), (''b'', TNumber)]\<rparr>"

section \<open>Correlations of extractMetrics\<close>

text \<open>
  \<^verbatim>\<open>parseFloat(r.toFixed(3))\<close>: the nearest multiple of one thousandth, the larger in
  magnitude of two nearest.
\<close>

definition toFixed3 :: "real \<Rightarrow> real" where
  "toFixed3 r = (if r < 0 then - (real_of_int (round (- r * 1000)) / 1000)
                 else real_of_int (round (r * 1000)) / 1000)"

text \<open>
  The arithmetic of doubles rounds. Elsewhere (means, variances) finite doubles are
  idealised as the exact values, but \<open>calculateCorrelation\<close> takes the square root of
  a difference and compares it with 0, so here rounding decides which branch runs and
  whether the root is NaN. Its operations \<^verbatim>\<open>+\<close>, \<^verbatim>\<open>-\<close>, \<^verbatim>\<open>*\<close>, \<^verbatim>\<open>/\<close> on
  finite doubles and \<^verbatim>\<open>Math.sqrt\<close> are therefore parameters, of which nothing is
  assumed.
\<close>

record double_arithmetic =
  Plus :: "real \<Rightarrow> real \<Rightarrow> real"
  Minus :: "real \<Rightarrow> real \<Rightarrow> real"
  Times :: "real \<Rightarrow> real \<Rightarrow> real"
  Divide :: "real \<Rightarrow> real \<Rightarrow> real"
  Math_sqrt :: "real \<Rightarrow> number"

text \<open>
  The exact arithmetic, with NaN for the root of a negative number: what doubles compute
  on small integers when the results are integers, as in the worked example.
\<close>

definition exact_arithmetic :: double_arithmetic where
  "exact_arithmetic =
     \<lparr>Plus = (+), Minus = (-), Times = (*), Divide = (/),
      Math_sqrt = (\<lambda>r. if r < 0 then None else Some (sqrt r))\<rparr>"

text \<open>
  \<open>calculateCorrelation\<close>, with the sums as the calls of \<^verbatim>\<open>reduce\<close> build them,
  from the left and starting at 0. \<open>denominator\<close> is the constant of that name; when
  it is NaN the test \<^verbatim>\<open>denominator === 0\<close> fails and the quotient, hence the
  result, is NaN.
\<close>

definition denominator :: "double_arithmetic \<Rightarrow> real list \<Rightarrow> real list \<Rightarrow> number" where
  "denominator A x y =
     (let n = real (length x);
          sumX = foldl (Plus A) 0 x;
          sumY = foldl (Plus A) 0 y;
          sumX2 = foldl (\<lambda>sum xi. Plus A sum (Times A xi xi)) 0 x;
          sumY2 = foldl (\<lambda>sum yi. Plus A sum (Times A yi yi)) 0 y
      in Math_sqrt A (Times A (Minus A (Times A n sumX2) (Times A sumX sumX))
                              (Minus A (Times A n sumY2) (Times A sumY sumY))))"

definition calculateCorrelation :: "double_arithmetic \<Rightarrow> real list \<Rightarrow> real list \<Rightarrow> number" where
  "calculateCorrelation A x y =
     (if length x \<noteq> length y \<or> length x = 0 then Some 0
      else (let n = real (length x);
                sumX = foldl (Plus A) 0 x;
                sumY = foldl (Plus A) 0 y;
                sumXY = foldl (\<lambda>sum (xi, yi). Plus A sum (Times A xi yi)) 0 (zip x y);
                numerator = Minus A (Times A n sumXY) (Times A sumX sumY)
            in case denominator A x y of
                 None \<Rightarrow> None
               | Some d \<Rightarrow> if d = 0 then Some 0 else Some (toFixed3 (Divide A numerator d))))"

text \<open>
  The pairs \<^verbatim>\<open>(values1[k], values2[k])\<close>: the rows in which both columns coerce to a
  number other than NaN.
\<close>

definition jointValues :: "js_builtins \<Rightarrow> row list \<Rightarrow> string \<Rightarrow> string \<Rightarrow> (real \<times> real) list" where
  "jointValues J rs col1 col2 =
     List.map_filter (\<lambda>row. case (Number J (row col1), Number J (row col2)) of
                              (Some v1, Some v2) \<Rightarrow> Some (v1, v2)
                            | _ \<Rightarrow> None) rs"

text \<open>
  \<^verbatim>\<open>correlations\<close> is a plain object of plain objects.
  \<^verbatim>\<open>if (!correlations[c]) correlations[c] = {}\<close> creates the row of \<open>c\<close> unless
  \<open>c\<close> is an own key or an inherited name (whose member is truthy).
\<close>

type_synonym correlations = "(string \<times> (string \<times> number) list) list"

definition ensureRow :: "string \<Rightarrow> correlations \<Rightarrow> correlations" where
  "ensureRow c corr =
     (if map_of corr c \<noteq> None \<or> inherited c then corr else obj_insert c [] corr)"

text \<open>
  \<^verbatim>\<open>correlations[a][b] = v\<close>. When \<open>a\<close> is not an own key it is an inherited name,
  and the assignment sets a property of the inherited member, not of \<^verbatim>\<open>correlations\<close>.
\<close>

definition putCell :: "string \<Rightarrow> string \<Rightarrow> number \<Rightarrow> correlations \<Rightarrow> correlations" where
  "putCell a b v corr =
     (case map_of corr a of
        Some inner \<Rightarrow> obj_update a (obj_define b v inner) corr
      | None \<Rightarrow> corr)"

text \<open>The body of the inner loop for the columns \<open>col1\<close> and \<open>col2\<close>.\<close>

definition storePair ::
    "js_builtins \<Rightarrow> double_arithmetic \<Rightarrow> row list \<Rightarrow> string \<times> string \<Rightarrow> correlations
     \<Rightarrow> failure + correlations" where
  "storePair J A rs p corr =
     (let col1 = fst p; col2 = snd p; values = jointValues J rs col1 col2 in
      if length values > 1 then
        (if col1 = ''__proto__'' \<or> col2 = ''__proto__'' then Inl PrototypeWrite
         else (let correlation = calculateCorrelation A (map fst values) (map snd values) in
               Inr (putCell col2 col1 correlation
                      (putCell col1 col2 correlation (ensureRow col2 (ensureRow col1 corr))))))
      else Inr corr)"

text \<open>The index pairs \<open>i < j\<close> in the order of the two nested loops.\<close>

fun pairs :: "'a list \<Rightarrow> ('a \<times> 'a) list" where
  "pairs [] = []"
| "pairs (x # xs) = map (Pair x) xs @ pairs xs"

fun storePairs ::
    "js_builtins \<Rightarrow> double_arithmetic \<Rightarrow> row list \<Rightarrow> (string \<times> string) list \<Rightarrow> correlations
     \<Rightarrow> failure + correlations" where
  "storePairs J A rs [] corr = Inr corr"
| "storePairs J A rs (p # ps) corr =
     (case storePair J A rs p corr of
        Inl e \<Rightarrow> Inl e
      | Inr corr' \<Rightarrow> storePairs J A rs ps corr')"

text \<open>
  The field \<^verbatim>\<open>correlations\<close> of the result of \<open>extractMetrics\<close>: \<open>None\<close> is
  \<^verbatim>\<open>undefined\<close>, returned when the object has no own key. The other fields of the
  result are computed apart from it and are not modelled.
\<close>

definition extractMetrics_correlations ::
    "js_builtins \<Rightarrow> double_arithmetic \<Rightarrow> ParsedData \<Rightarrow> failure + correlations option" where
  "extractMetrics_correlations J A pd =
     (let numericColumns = columnsOfType pd TNumber in
      case (if length numericColumns \<ge> 2 then storePairs J A (rows pd) (pairs numericColumns) []
            else Inr []) of
        Inl e \<Rightarrow> Inl e
      | Inr correlations \<Rightarrow> Inr (if length correlations > 0 then Some correlations else None))"

text \<open>\<^verbatim>\<open>correlations[a][b]\<close> as an entry of the returned object.\<close>

definition cell :: "correlations \<Rightarrow> string \<Rightarrow> string \<Rightarrow> number option" where
  "cell corr a b = (case map_of corr a of Some inner \<Rightarrow> map_of inner b | None \<Rightarrow> None)"

text \<open>Tables whose cells or column names meet names that every object inherits.\<close>

definition proto_cell_table :: ParsedData where
  "proto_cell_table =
     table [''tag''] [(''tag'', TString)] [[(''tag'', JStr ''__proto__'')]]"

definition constructor_column_table :: ParsedData where
  "constructor_column_table =
     table [''constructor'', ''b''] [(''constructor'', TNumber), (''b'', TNumber)]
       [[(''constructor'', JNum (Some 0)), (''b'', JNum (Some 0))],
        [(''constructor'', JNum (Some 1)), (''b'', JNum (Some 1))]]"

text \<open>
  What the loop over the column pairs keeps true of \<^verbatim>\<open>correlations\<close>: every entry has
  its mirror entry with the same number, and comes from a pair of the list with more
  than one joint row.
\<close>

definition stored_from ::
    "js_builtins \<Rightarrow> row list \<Rightarrow> (string \<times> string) list \<Rightarrow> correlations \<Rightarrow> bool" where
  "stored_from J rs ps corr =
     (\<forall>a b v. cell corr a b = Some v \<longrightarrow>
        cell corr b a = Some v \<and> ((a, b) \<in> set ps \<or> (b, a) \<in> set ps)
        \<and> length (jointValues J rs a b) > 1)"

text \<open>
  What the loop over the rows keeps true of \<^verbatim>\<open>counts\<close>: one own key for each
  counted value met so far, holding the number of rows with that value.
\<close>

definition counted :: "js_builtins \<Rightarrow> string \<Rightarrow> row list \<Rightarrow> (string \<times> nat) list \<Rightarrow> bool" where
  "counted J x rs counts =
     (distinct (map fst counts)
      \<and> (\<forall>c. map_of counts c =
             (if c \<in> set (map (categoryOf J x) rs) \<and> c \<noteq> [] \<and> c \<noteq> ''Unknown''
              then Some (length (filter (\<lambda>r. categoryOf J x r = c) rs)) else None)))"

text \<open>
  What the loop over the rows keeps true of \<^verbatim>\<open>aggregated\<close>: one own key for each
  category met so far, holding the values of the rows of that category in row order.
\<close>

definition grouped ::
    "js_builtins \<Rightarrow> string \<Rightarrow> string \<Rightarrow> row list \<Rightarrow> (string \<times> real list) list \<Rightarrow> bool" where
  "grouped J x y rs aggregated =
     (distinct (map fst aggregated)
      \<and> (\<forall>c. map_of aggregated c =
             (if c \<in> set (map (categoryOf J x) rs) then Some (valuesOf J x y rs c) else None)))"

section \<open>Type inference: results\<close>

lemma inferColumnType_booleans:
  assumes "colSamples cleanedRows col \<noteq> []"
      and "list_all typeof_boolean (colSamples cleanedRows col)"
  shows "inferColumnType J cleanedRows col = TBoolean"
proof -
  have "allBooleans (colSamples cleanedRows col)"
    using assms(2) unfolding allBooleans_def list_all_iff by blast
  with assms(1) show ?thesis
    by (simp add: inferColumnType_def Let_def)
qed

text \<open>
  C1. A column whose sampled values are the boolean literals should be typed
  \<open>boolean\<close>, with booleans taking precedence over numbers. In
  \<open>detectColumnTypes\<close> the number test runs first and \<^verbatim>\<open>Number(true)\<close> is 1, so the
  column \<^verbatim>\<open>[{flag: true}, {flag: false}]\<close> is typed \<open>number\<close>.
\<close>

theorem detectColumnTypes_boolean_literals_number:
  "detectColumnTypes J
     [row_of [(''flag'', JBool True)], row_of [(''flag'', JBool False)]] [''flag''] ''flag''
   = Some TNumber"
  by (simp add: detectColumnTypes_def detectColumnType_def sampleValues_def row_of_def
      typeof_number_def isNaN_def Let_def)

section \<open>Evaluating the worked examples\<close>

lemmas example_simps =
  table_def finalXAxis_def finalYAxis_def truthy_str_def categoryOf_def valueOf_def row_of_def
  js_or_def trim_def is_ws_def inherited_def Object_prototype_keys_def obj_update_def
  obj_define_def array_index_def is_digit_def dec_value_def barData_def barDatum_def finish_def
  Let_def

section \<open>Bar materialization\<close>

lemma obj_insert_plain: "array_index k = None \<Longrightarrow> obj_insert k v obj = obj @ [(k, v)]"
  by (induction obj) auto

lemma set_first_seen: "set (first_seen xs) = set xs"
proof (induction xs rule: rev_induct)
  case Nil
  then show ?case by (simp add: first_seen_def)
next
  case (snoc x xs)
  then show ?case by (auto simp: first_seen_def)
qed

lemma first_seen_snoc:
  "first_seen (xs @ [x]) = (if x \<in> set xs then first_seen xs else first_seen xs @ [x])"
  using set_first_seen[of xs] by (auto simp: first_seen_def)

lemma map_of_groupsOf:
  "map_of (groupsOf J x y ps) c =
     (if c \<in> set (map (categoryOf J x) ps) then Some (valuesOf J x y ps c) else None)"
  by (simp add: groupsOf_def map_of_map_restrict restrict_map_def set_first_seen)

lemma groupsOf_snoc_old:
  assumes "categoryOf J x r \<in> set (map (categoryOf J x) ps)"
  shows "obj_update (categoryOf J x r) (valuesOf J x y ps (categoryOf J x r) @ [valueOf J y r])
           (groupsOf J x y ps) = groupsOf J x y (ps @ [r])"
  using assms
  by (auto simp: groupsOf_def obj_update_def first_seen_snoc valuesOf_def)

lemma groupsOf_snoc_new:
  assumes "categoryOf J x r \<notin> set (map (categoryOf J x) ps)"
  shows "groupsOf J x y ps @ [(categoryOf J x r, [valueOf J y r])] = groupsOf J x y (ps @ [r])"
  using assms
  by (auto simp: groupsOf_def first_seen_snoc valuesOf_def set_first_seen filter_empty_conv image_iff)

text \<open>
  The loop invariant: after the rows \<open>ps\<close>, \<^verbatim>\<open>aggregated\<close> holds the groups of
  \<open>ps\<close> in first-seen order, as long as no category is an array index or an inherited
  name.
\<close>

lemma aggregate_groups:
  assumes "\<forall>r\<in>set rs. array_index (categoryOf J x r) = None \<and> \<not> inherited (categoryOf J x r)"
  shows "aggregate J x y rs (groupsOf J x y ps) = Inr (groupsOf J x y (ps @ rs))"
  using assms
proof (induction rs arbitrary: ps)
  case Nil
  then show ?case by simp
next
  case (Cons r rs)
  have IH: "aggregate J x y rs (groupsOf J x y (ps @ [r])) = Inr (groupsOf J x y ((ps @ [r]) @ rs))"
    using Cons.prems by (intro Cons.IH) simp
  show ?case
  proof (cases "categoryOf J x r \<in> set (map (categoryOf J x) ps)")
    case True
    then show ?thesis
      using IH groupsOf_snoc_old[OF True, of y]
      by (simp add: map_of_groupsOf Let_def del: map_append)
  next
    case False
    then show ?thesis
      using IH groupsOf_snoc_new[OF False, of y] Cons.prems
      by (simp add: map_of_groupsOf Let_def obj_insert_plain)
  qed
qed

lemma groupsOf_Nil: "groupsOf J x y [] = []"
  by (simp add: groupsOf_def first_seen_def)

lemma barData_groupsOf: "barData x y (groupsOf J x y rs) = firstSeenMeans J x y rs"
  by (simp add: barData_def firstSeenMeans_def mean_def)

text \<open>
  For a bar chart with the resolved axes \<open>x\<close> and \<open>y\<close>, when no category is an
  array-index key or the name of an inherited member, the payload holds the groups of
  the rows by category (the trimmed text of the x value, \<open>Unknown\<close> for
  \<^verbatim>\<open>null\<close>) in first-seen order, each with the mean of the y values coerced to
  numbers (0 when the coercion is NaN), cut to the first 20.
\<close>

lemma bar_first_seen_means:
  assumes "finalXAxis pd Bar xa = Some x" and "finalYAxis pd Bar xa ya = Some y"
      and "x \<noteq> []" and "y \<noteq> []"
      and "\<forall>r\<in>set (rows pd). array_index (categoryOf J x r) = None
                              \<and> \<not> inherited (categoryOf J x r)"
  shows "generateChart J now pd Bar xa ya dk
           = Inr (finish now Bar (y @ '' by '' @ x) (Some x) (Some y) dk
                    (firstSeenMeans J x y (rows pd)))
         \<and> (\<forall>r. r x = JNull \<longrightarrow> categoryOf J x r = ''Unknown'')
         \<and> (\<forall>r. isNaN (Number J (r y)) \<longrightarrow> valueOf J y r = 0)"
proof -
  have "aggregate J x y (rows pd) [] = Inr (groupsOf J x y (rows pd))"
    using aggregate_groups[OF assms(5), of y "[]"] by (simp add: groupsOf_Nil)
  then have "generateChart J now pd Bar xa ya dk
           = Inr (finish now Bar (y @ '' by '' @ x) (Some x) (Some y) dk
                    (firstSeenMeans J x y (rows pd)))"
    using assms(1-4) by (simp add: generateChart_def truthy_str_def barData_groupsOf)
  moreover have "\<forall>r. r x = JNull \<longrightarrow> categoryOf J x r = ''Unknown''"
    by (simp add: categoryOf_def js_or_def trim_def is_ws_def)
  moreover have "\<forall>r. isNaN (Number J (r y)) \<longrightarrow> valueOf J y r = 0"
    by (simp add: valueOf_def isNaN_def)
  ultimately show ?thesis by blast
qed

text \<open>The example of the specification: the means 15 and 5 for the categories A and B.\<close>

lemma bar_example_means:
  "generateChart example_builtins 0
     (table [''cat'', ''val''] [(''cat'', TString), (''val'', TNumber)]
        [[(''cat'', JStr ''A''), (''val'', JNum (Some 10))],
         [(''cat'', JStr ''A''), (''val'', JNum (Some 20))],
         [(''cat'', JStr ''B''), (''val'', JNum (Some 5))]])
     Bar (Some ''cat'') (Some ''val'') None
   = Inr (Some \<lparr>cfg_id = ''bar-0'', cfg_type = Bar, cfg_title = ''val by cat'',
                  cfg_xAxis = Some ''cat'', cfg_yAxis = Some ''val'', cfg_dataKey = None,
                  cfg_data = [[(''cat'', JStr ''A''), (''val'', JNum (Some 15))],
                              [(''cat'', JStr ''B''), (''val'', JNum (Some 5))]]\<rparr>)"
proof -
  let ?pd = "table [''cat'', ''val''] [(''cat'', TString), (''val'', TNumber)]
        [[(''cat'', JStr ''A''), (''val'', JNum (Some 10))],
         [(''cat'', JStr ''A''), (''val'', JNum (Some 20))],
         [(''cat'', JStr ''B''), (''val'', JNum (Some 5))]]"
  have x: "finalXAxis ?pd Bar (Some ''cat'') = Some ''cat''"
    by (simp add: finalXAxis_def truthy_str_def)
  have y: "finalYAxis ?pd Bar (Some ''cat'') (Some ''val'') = Some ''val''"
    by (simp add: finalYAxis_def truthy_str_def)
  have ok: "\<forall>r\<in>set (rows ?pd). array_index (categoryOf example_builtins ''cat'' r) = None
                              \<and> \<not> inherited (categoryOf example_builtins ''cat'' r)"
    by (simp add: example_simps)
  have "firstSeenMeans example_builtins ''cat'' ''val'' (rows ?pd)
          = [[(''cat'', JStr ''A''), (''val'', JNum (Some 15))],
             [(''cat'', JStr ''B''), (''val'', JNum (Some 5))]]"
    by (simp add: firstSeenMeans_def groupsOf_def first_seen_def valuesOf_def mean_def
        example_simps)
  then show ?thesis
    using bar_first_seen_means[OF x y _ _ ok, of 0 None] by (simp add: finish_def digits.simps)
qed

text \<open>
  C5. The groups should come out in first-seen order, whatever the categories are.
  \<^verbatim>\<open>aggregated\<close> is a plain object. The cells \<^verbatim>\<open>" 2021"\<close>, \<^verbatim>\<open>"n/a"\<close>,
  \<^verbatim>\<open>"2019"\<close>, \<^verbatim>\<open>"2021 "\<close> and \<^verbatim>\<open>null\<close> are trimmed and grouped as the claim
  says, with the means 2, 5, 2 and, for the row without a value, 0, but \<open>2021\<close> and
  \<open>2019\<close> are array-index keys, which \<^verbatim>\<open>Object.entries\<close> lists first and in
  ascending numeric order: the payload has \<open>2019\<close>, \<open>2021\<close>, \<open>n/a\<close>,
  \<open>Unknown\<close> where first-seen order is \<open>2021\<close>, \<open>n/a\<close>, \<open>2019\<close>,
  \<open>Unknown\<close>. For the category \<open>constructor\<close> the test
  \<^verbatim>\<open>!aggregated[category]\<close> finds the inherited member, no array is created, and
  \<^verbatim>\<open>push\<close> throws.
\<close>

theorem bar_index_categories_reordered:
  "generateChart example_builtins 0 years_table Bar (Some ''cat'') (Some ''val'') None
   = Inr (Some \<lparr>cfg_id = ''bar-0'', cfg_type = Bar, cfg_title = ''val by cat'',
                  cfg_xAxis = Some ''cat'', cfg_yAxis = Some ''val'', cfg_dataKey = None,
                  cfg_data = [[(''cat'', JStr ''2019''), (''val'', JNum (Some 2))],
                              [(''cat'', JStr ''2021''), (''val'', JNum (Some 2))],
                              [(''cat'', JStr ''n/a''), (''val'', JNum (Some 5))],
                              [(''cat'', JStr ''Unknown''), (''val'', JNum (Some 0))]]\<rparr>)
   \<and> firstSeenMeans example_builtins ''cat'' ''val'' (rows years_table)
       = [[(''cat'', JStr ''2021''), (''val'', JNum (Some 2))],
          [(''cat'', JStr ''n/a''), (''val'', JNum (Some 5))],
          [(''cat'', JStr ''2019''), (''val'', JNum (Some 2))],
          [(''cat'', JStr ''Unknown''), (''val'', JNum (Some 0))]]
   \<and> generateChart example_builtins 0 constructor_cell_table Bar (Some ''cat'') (Some ''val'') None
       = Inl TypeError"
proof -
  have a: "generateChart example_builtins 0 years_table Bar (Some ''cat'') (Some ''val'') None
   = Inr (Some \<lparr>cfg_id = ''bar-0'', cfg_type = Bar, cfg_title = ''val by cat'',
                  cfg_xAxis = Some ''cat'', cfg_yAxis = Some ''val'', cfg_dataKey = None,
                  cfg_data = [[(''cat'', JStr ''2019''), (''val'', JNum (Some 2))],
                              [(''cat'', JStr ''2021''), (''val'', JNum (Some 2))],
                              [(''cat'', JStr ''n/a''), (''val'', JNum (Some 5))],
                              [(''cat'', JStr ''Unknown''), (''val'', JNum (Some 0))]]\<rparr>)"
    by (simp add: generateChart_def years_table_def digits.simps example_simps)
  have b: "firstSeenMeans example_builtins ''cat'' ''val'' (rows years_table)
       = [[(''cat'', JStr ''2021''), (''val'', JNum (Some 2))],
          [(''cat'', JStr ''n/a''), (''val'', JNum (Some 5))],
          [(''cat'', JStr ''2019''), (''val'', JNum (Some 2))],
          [(''cat'', JStr ''Unknown''), (''val'', JNum (Some 0))]]"
    by (simp add: years_table_def firstSeenMeans_def groupsOf_def first_seen_def valuesOf_def
        mean_def example_simps)
  have c: "generateChart example_builtins 0 constructor_cell_table Bar (Some ''cat'')
             (Some ''val'') None = Inl TypeError"
    by (simp add: generateChart_def constructor_cell_table_def example_simps)
  show ?thesis using a b c by (intro conjI)
qed

text \<open>
  Through the route, the first request is answered with the groups in that order and the
  second with status 500.
\<close>

lemma years_columns: "columns years_table = [''cat'', ''val'']"
  "columns constructor_cell_table = [''cat'', ''val'']"
  by (simp_all add: years_table_def constructor_cell_table_def table_def)

theorem bar_index_categories_reordered_witness:
  "createChartRoute example_builtins 0 (Some years_table) (Some ''bar'') (Some ''cat'')
     (Some ''val'') None
   = Json \<lparr>cfg_id = ''bar-0'', cfg_type = Bar, cfg_title = ''val by cat'',
            cfg_xAxis = Some ''cat'', cfg_yAxis = Some ''val'', cfg_dataKey = None,
            cfg_data = [[(''cat'', JStr ''2019''), (''val'', JNum (Some 2))],
                        [(''cat'', JStr ''2021''), (''val'', JNum (Some 2))],
                        [(''cat'', JStr ''n/a''), (''val'', JNum (Some 5))],
                        [(''cat'', JStr ''Unknown''), (''val'', JNum (Some 0))]]\<rparr>
   \<and> createChartRoute example_builtins 0 (Some constructor_cell_table) (Some ''bar'')
       (Some ''cat'') (Some ''val'') None
     = Status500 ''Failed to create chart''"
  using bar_index_categories_reordered
  by (simp add: createChartRoute_def truthy_str_def parseChartType_def years_columns)

section \<open>Determinism\<close>

lemma dec_value_snoc: "dec_value (xs @ [c]) = 10 * dec_value xs + (of_char c - 48)"
  by (simp add: dec_value_def)

lemma digit_char_value: "d < 10 \<Longrightarrow> (of_char (''0123456789'' ! d) :: nat) - 48 = d"
proof -
  assume "d < 10"
  then have "d \<in> {0, 1, 2, 3, 4, 5, 6, 7, 8, 9}" by auto
  then show ?thesis by auto
qed

lemma dec_value_digits: "dec_value (digits n) = n"
proof (induction n rule: digits.induct)
  case (1 n)
  show ?case
  proof (cases "n < 10")
    case True
    then show ?thesis
      by (simp add: digits.simps[of n] dec_value_def digit_char_value)
  next
    case False
    then have "dec_value (digits (n div 10)) = n div 10" using "1.IH" by simp
    with False show ?thesis
      by (simp add: digits.simps[of n] dec_value_snoc digit_char_value)
  qed
qed

lemma digits_inj: "digits n = digits m \<Longrightarrow> n = m"
  by (metis dec_value_digits)

lemma generateChart_id:
  "generateChart J now pd ct xa ya dk = Inr (Some cfg) \<Longrightarrow>
   cfg_id cfg = chartTypeName ct @ ''-'' @ digits now"
  by (cases ct)
     (auto simp: generateChart_def Let_def finish_def split: sum.splits if_splits)

lemma generateChart_id_free:
  "map_sum id (map_option (\<lambda>c. c\<lparr>cfg_id := []\<rparr>)) (generateChart J now1 pd ct xa ya dk)
     = map_sum id (map_option (\<lambda>c. c\<lparr>cfg_id := []\<rparr>)) (generateChart J now2 pd ct xa ya dk)"
  by (cases ct)
     (simp_all add: generateChart_def Let_def finish_def split: sum.splits)

text \<open>
  C2, as amended. \<open>extractFeatures\<close> and \<open>recommendCharts\<close> read nothing but their
  arguments. \<open>generateChart\<close> also reads the clock: two calls with the same arguments
  agree on the outcome (exception, \<^verbatim>\<open>null\<close> or payload) and on every field of the
  payload but the id, which is the chart type, a dash and the clock reading; two calls
  that return the same payload read the same millisecond.
\<close>

theorem generateChart_same_up_to_id:
  "map_sum id (map_option (\<lambda>c. c\<lparr>cfg_id := []\<rparr>)) (generateChart J now1 pd ct xa ya dk)
     = map_sum id (map_option (\<lambda>c. c\<lparr>cfg_id := []\<rparr>)) (generateChart J now2 pd ct xa ya dk)
   \<and> (\<forall>cfg. generateChart J now1 pd ct xa ya dk = Inr (Some cfg)
          \<longrightarrow> cfg_id cfg = chartTypeName ct @ ''-'' @ digits now1)
   \<and> (\<forall>cfg. generateChart J now1 pd ct xa ya dk = Inr (Some cfg)
            \<and> generateChart J now2 pd ct xa ya dk = Inr (Some cfg) \<longrightarrow> now1 = now2)"
proof -
  have c: "now1 = now2"
    if "generateChart J now1 pd ct xa ya dk = Inr (Some cfg)"
       "generateChart J now2 pd ct xa ya dk = Inr (Some cfg)" for cfg
    using generateChart_id[OF that(1)] generateChart_id[OF that(2)] digits_inj by simp
  show ?thesis using generateChart_id_free generateChart_id c by blast
qed

lemma cat_val_bar:
  "generateChart example_builtins now cat_val_table Bar (Some ''cat'') (Some ''val'') None
   = Inr (Some \<lparr>cfg_id = ''bar-'' @ digits now, cfg_type = Bar, cfg_title = ''val by cat'',
                  cfg_xAxis = Some ''cat'', cfg_yAxis = Some ''val'', cfg_dataKey = None,
                  cfg_data = [[(''cat'', JStr ''A''), (''val'', JNum (Some 15))],
                              [(''cat'', JStr ''B''), (''val'', JNum (Some 5))]]\<rparr>)"
  by (simp add: generateChart_def cat_val_table_def example_simps)

theorem generateChart_same_up_to_id_witness:
  "\<exists>cfg. generateChart example_builtins 1700000000000 cat_val_table Bar (Some ''cat'')
            (Some ''val'') None = Inr (Some cfg)
         \<and> cfg_id cfg = ''bar-1700000000000''"
proof -
  obtain cfg where e: "generateChart example_builtins 1700000000000 cat_val_table Bar
                         (Some ''cat'') (Some ''val'') None = Inr (Some cfg)"
    using cat_val_bar by blast
  have "cfg_id cfg = chartTypeName Bar @ ''-'' @ digits 1700000000000"
    using generateChart_same_up_to_id[of example_builtins 1700000000000 cat_val_table Bar
        "Some ''cat''" "Some ''val''" None 1700000000000] e by blast
  then have "cfg_id cfg = ''bar-1700000000000''"
    by (simp add: digits.simps)
  with e show ?thesis by blast
qed

text \<open>
  C2 as stated fails: the same call at the clock readings 1 and 2 returns the ids
  \<open>bar-1\<close> and \<open>bar-2\<close>.
\<close>

theorem generateChart_id_follows_clock:
  "generateChart example_builtins 1 cat_val_table Bar (Some ''cat'') (Some ''val'') None
   \<noteq> generateChart example_builtins 2 cat_val_table Bar (Some ''cat'') (Some ''val'') None"
  by (simp add: cat_val_bar digits.simps)

section \<open>The recommender: candidates and their order\<close>

lemmas name_simps =
  isIdentifierColumn_def IDENTIFIER_PATTERNS_def lower_def toLowerAscii_def starts_with_def
  ends_with_def contains_def re_time_words_def re_time_words_area_def re_empty_digits_def
  re_column_digits_def word_digits_def meaningful_name_def is_digit_def

lemma recommendBar_elem:
  "r \<in> set (recommendBar J pd f) \<Longrightarrow>
   chartType r = Bar \<and> confidence r = 95 / 100
         \<and> (\<exists>c v. barCategoryCol J pd = Some c \<and> barValueCol pd = Some v
                 \<and> xAxis r = Some c \<and> yAxis r = Some v
                 \<and> \<not> isIdentifierColumn c \<and> \<not> re_empty_digits c \<and> \<not> re_column_digits c
                 \<and> \<not> isIdentifierColumn v)"
  unfolding recommendBar_def
  by (cases "hasCategoricalData f \<and> 0 < numNumericColumns f"; cases "barCategoryCol J pd";
      cases "barValueCol pd")
     (simp_all split: if_splits)

lemma recommendLine_forms:
  assumes "r \<in> set (recommendLine pd f)"
  shows "chartType r = Line
         \<and> ((\<exists>t v. lineTimeCol pd = Some t \<and> lineValueCol pd = Some v
                   \<and> xAxis r = Some t \<and> yAxis r = Some v)
            \<or> (2 \<le> length (filter (\<lambda>col. \<not> isIdentifierColumn col) (columnsOfType pd TNumber))
                \<and> xAxis r = Some (filter (\<lambda>col. \<not> isIdentifierColumn col)
                                      (columnsOfType pd TNumber) ! 0)
                \<and> yAxis r = Some (filter (\<lambda>col. \<not> isIdentifierColumn col)
                                      (columnsOfType pd TNumber) ! 1))
            \<or> (2 \<le> length (columnsOfType pd TNumber)
                \<and> xAxis r = Some (columnsOfType pd TNumber ! 0)
                \<and> yAxis r = Some (columnsOfType pd TNumber ! 1)))"
proof (cases "hasTimeSeries f \<and> 0 < numNumericColumns f")
  case True
  with assms show ?thesis
    unfolding recommendLine_def Let_def
    by (cases "lineTimeCol pd"; cases "lineValueCol pd") (simp_all split: if_splits)
next
  case False
  with assms show ?thesis
    unfolding recommendLine_def Let_def
    by (cases "2 \<le> numNumericColumns f \<and> 10 < totalRows f";
        cases "2 \<le> length (filter (\<lambda>col. \<not> isIdentifierColumn col) (columnsOfType pd TNumber))";
        cases "2 \<le> length (columnsOfType pd TNumber)")
       simp_all
qed

lemma recommendLine_elem: "r \<in> set (recommendLine pd f) \<Longrightarrow> chartType r = Line"
  using recommendLine_forms by blast

lemma recommendPie_shape:
  "recommendPie J pd f = []
   \<or> (\<exists>r. recommendPie J pd f = [r] \<and> chartType r = Pie \<and> xAxis r = None \<and> yAxis r = None)"
  by (auto simp: recommendPie_def Let_def split: option.splits)

lemma recommendPie_elem:
  "r \<in> set (recommendPie J pd f) \<Longrightarrow> chartType r = Pie \<and> xAxis r = None \<and> yAxis r = None"
  using recommendPie_shape[of J pd f] by auto

lemma recommendScatter_elem:
  "r \<in> set (recommendScatter pd f) \<Longrightarrow> chartType r = Scatter \<and> confidence r \<le> 8 / 10"
  by (auto simp: recommendScatter_def Let_def split: if_splits option.splits prod.splits)

lemma recommendArea_shape:
  "recommendArea pd f = []
   \<or> (\<exists>r t v. recommendArea pd f = [r] \<and> chartType r = Area \<and> areaTimeCol pd = Some t
             \<and> areaValueCol pd = Some v \<and> xAxis r = Some t \<and> yAxis r = Some v)"
  by (auto simp: recommendArea_def split: option.splits)

lemma recommendArea_elem: "r \<in> set (recommendArea pd f) \<Longrightarrow> chartType r = Area"
  using recommendArea_shape[of pd f] by auto

lemma recommendScatter_shape:
  "recommendScatter pd f = []
   \<or> (\<exists>r. recommendScatter pd f = [r] \<and> chartType r = Scatter \<and> confidence r \<le> 8 / 10
          \<and> ((2 \<le> length (filter (\<lambda>col. \<not> isIdentifierColumn col) (columnsOfType pd TNumber))
                \<and> xAxis r = Some (filter (\<lambda>col. \<not> isIdentifierColumn col)
                                      (columnsOfType pd TNumber) ! 0)
                \<and> yAxis r = Some (filter (\<lambda>col. \<not> isIdentifierColumn col)
                                      (columnsOfType pd TNumber) ! 1))
              \<or> (2 \<le> length (columnsOfType pd TNumber)
                \<and> xAxis r = Some (columnsOfType pd TNumber ! 0)
                \<and> yAxis r = Some (columnsOfType pd TNumber ! 1))))"
  by (auto simp: recommendScatter_def Let_def)

lemma set_recommendCharts: "set (recommendCharts J pd f) = set (recommendations J pd f)"
  by (simp add: recommendCharts_def)

lemma bar_in_recommendations:
  assumes "r \<in> set (recommendations J pd f)" and "chartType r = Bar"
  shows "r \<in> set (recommendBar J pd f)"
  using assms recommendLine_elem recommendPie_elem recommendScatter_elem recommendArea_elem
  by (fastforce simp: recommendations_def)

lemma scatter_in_recommendations:
  assumes "r \<in> set (recommendations J pd f)" and "chartType r = Scatter"
  shows "r \<in> set (recommendScatter pd f)"
  using assms recommendLine_elem recommendPie_elem recommendBar_elem recommendArea_elem
  by (fastforce simp: recommendations_def)

text \<open>
  A value column with a placeholder name is the last resort: it is taken only when
  \<^verbatim>\<open>find\<close> meets no numeric column with a meaningful name, or meets the empty name
  first (which \<^verbatim>\<open>||\<close> skips).
\<close>

lemma barValueCol_last_resort:
  assumes "barValueCol pd = Some v" and "\<not> meaningful_name v"
  shows "find meaningful_name (columnsOfType pd TNumber) = None
         \<or> find meaningful_name (columnsOfType pd TNumber) = Some []"
proof (cases "find meaningful_name (columnsOfType pd TNumber)")
  case None
  then show ?thesis by simp
next
  case (Some n)
  then have m: "meaningful_name n" by (auto simp: find_Some_iff)
  show ?thesis
  proof (cases "n = []")
    case True
    with Some show ?thesis by simp
  next
    case False
    let ?g = "find meaningful_name
                (filter (\<lambda>col. \<not> isIdentifierColumn col) (columnsOfType pd TNumber))"
    have "barValueCol pd = (if truthy_str ?g then ?g else Some n)"
      using Some False by (simp add: barValueCol_def Let_def or_str_def truthy_str_def)
    moreover have "\<And>w. ?g = Some w \<Longrightarrow> meaningful_name w"
      by (auto simp: find_Some_iff)
    ultimately have "meaningful_name v"
      using assms(1) m by (auto split: if_splits)
    with assms(2) show ?thesis by simp
  qed
qed

text \<open>
  C4, as amended. Every bar candidate has the resolved category column as its x axis
  and the resolved value column as its y axis; the category column is neither an
  identifier nor placeholder-named and the value column is not an identifier, so no bar
  candidate is emitted when one of these fails. The value column may carry a placeholder
  name, as the last resort.
\<close>

theorem bar_candidate_columns:
  assumes "r \<in> set (recommendCharts J pd f)" and "chartType r = Bar"
  shows "\<exists>c v. barCategoryCol J pd = Some c \<and> barValueCol pd = Some v
               \<and> xAxis r = Some c \<and> yAxis r = Some v
               \<and> \<not> isIdentifierColumn c \<and> \<not> re_empty_digits c \<and> \<not> re_column_digits c
               \<and> \<not> isIdentifierColumn v
               \<and> (\<not> meaningful_name v \<longrightarrow>
                    find meaningful_name (columnsOfType pd TNumber) = None
                    \<or> find meaningful_name (columnsOfType pd TNumber) = Some [])"
proof -
  have "r \<in> set (recommendBar J pd f)"
    using assms bar_in_recommendations set_recommendCharts by blast
  then obtain c v where cv: "barCategoryCol J pd = Some c" "barValueCol pd = Some v"
      "xAxis r = Some c" "yAxis r = Some v" "\<not> isIdentifierColumn c" "\<not> re_empty_digits c"
      "\<not> re_column_digits c" "\<not> isIdentifierColumn v"
    using recommendBar_elem by blast
  then show ?thesis using barValueCol_last_resort[OF cv(2)] by blast
qed

lemma region_features:
  "hasCategoricalData (extractFeatures example_builtins region_table)"
  "numNumericColumns (extractFeatures example_builtins region_table) = 1"
  "\<not> hasTimeSeries (extractFeatures example_builtins region_table)"
  by code_simp+

lemma region_columns:
  "barCategoryCol example_builtins region_table = Some ''region''"
  "barValueCol region_table = Some ''Column1''"
  "columnsOfType region_table TNumber = [''Column1'']"
  by code_simp+

lemma region_names:
  "\<not> isIdentifierColumn ''region''" "\<not> re_empty_digits ''region''"
  "\<not> re_column_digits ''region''" "\<not> isIdentifierColumn ''Column1''"
  "re_column_digits ''Column1''"
  by code_simp+

lemma region_recommendCharts:
  "recommendCharts example_builtins region_table (extractFeatures example_builtins region_table)
   = [\<lparr>chartType = Bar, confidence = 95 / 100, xAxis = Some ''region'',
        yAxis = Some ''Column1'', dataKey = None, title = ''Column1 by region'',
        reasoning = ''Categorical data with numeric metrics - ideal for bar charts showing comparisons''\<rparr>]"
proof -
  let ?f = "extractFeatures example_builtins region_table"
  have "recommendBar example_builtins region_table ?f
   = [\<lparr>chartType = Bar, confidence = 95 / 100, xAxis = Some ''region'',
        yAxis = Some ''Column1'', dataKey = None, title = ''Column1 by region'',
        reasoning = ''Categorical data with numeric metrics - ideal for bar charts showing comparisons''\<rparr>]"
    by (simp add: recommendBar_def region_features region_columns region_names)
  moreover have "recommendLine region_table ?f = []"
    by (simp add: recommendLine_def region_features)
  moreover have "recommendPie example_builtins region_table ?f = []"
    by (simp add: recommendPie_def region_columns)
  moreover have "recommendScatter region_table ?f = []"
    by (simp add: recommendScatter_def region_features)
  moreover have "recommendArea region_table ?f = []"
    by (simp add: recommendArea_def region_features)
  ultimately show ?thesis
    by (simp add: recommendCharts_def recommendations_def)
qed

theorem bar_candidate_columns_witness:
  "barCategoryCol example_builtins region_table = Some ''region''
   \<and> barValueCol region_table = Some ''Column1''
   \<and> \<not> isIdentifierColumn ''region'' \<and> \<not> re_empty_digits ''region''
   \<and> \<not> re_column_digits ''region'' \<and> \<not> isIdentifierColumn ''Column1''
   \<and> find meaningful_name (columnsOfType region_table TNumber) = None"
proof -
  let ?r = "\<lparr>chartType = Bar, confidence = 95 / 100, xAxis = Some ''region'',
        yAxis = Some ''Column1'', dataKey = None, title = ''Column1 by region'',
        reasoning = ''Categorical data with numeric metrics - ideal for bar charts showing comparisons''\<rparr>"
  have "?r \<in> set (recommendCharts example_builtins region_table
                     (extractFeatures example_builtins region_table))"
    by (simp add: region_recommendCharts)
  moreover have "chartType ?r = Bar" by simp
  ultimately obtain c v where cv:
      "barCategoryCol example_builtins region_table = Some c" "barValueCol region_table = Some v"
      "\<not> isIdentifierColumn c" "\<not> re_empty_digits c" "\<not> re_column_digits c"
      "\<not> isIdentifierColumn v"
      "\<not> meaningful_name v \<longrightarrow>
         find meaningful_name (columnsOfType region_table TNumber) = None
         \<or> find meaningful_name (columnsOfType region_table TNumber) = Some []"
    using bar_candidate_columns by blast
  have c: "c = ''region''" and v: "v = ''Column1''"
    using cv(1,2) by (simp_all add: region_columns)
  have "\<not> meaningful_name ''Column1''"
    by (simp add: meaningful_name_def region_names)
  moreover have "find meaningful_name (columnsOfType region_table TNumber) \<noteq> Some []"
    by (simp add: region_columns)
  ultimately show ?thesis using cv c v by simp
qed

text \<open>
  C4 as stated fails: the only numeric column of this table is named \<open>Column1\<close>, and
  the bar candidate takes it as its y axis.
\<close>

theorem bar_candidate_placeholder_value:
  "recommendCharts example_builtins region_table (extractFeatures example_builtins region_table)
   = [\<lparr>chartType = Bar, confidence = 95 / 100, xAxis = Some ''region'',
        yAxis = Some ''Column1'', dataKey = None, title = ''Column1 by region'',
        reasoning = ''Categorical data with numeric metrics - ideal for bar charts showing comparisons''\<rparr>]
   \<and> re_column_digits ''Column1''"
  by (simp add: region_recommendCharts region_names)

text \<open>
  C6. The result is sorted by descending confidence; it is a permutation of the
  candidates in rule order in which candidates of equal confidence keep that order; a
  bar candidate (confidence 0.95) stands before every scatter candidate (confidence at
  most 0.8).
\<close>

theorem recommendCharts_order:
  "sorted_wrt (\<lambda>a b. confidence a \<ge> confidence b) (recommendCharts J pd f)
   \<and> mset (recommendCharts J pd f) = mset (recommendations J pd f)
   \<and> (\<forall>k. filter (\<lambda>r. confidence r = k) (recommendCharts J pd f)
            = filter (\<lambda>r. confidence r = k) (recommendations J pd f))
   \<and> (\<forall>i j. i < length (recommendCharts J pd f) \<and> j < length (recommendCharts J pd f)
              \<and> chartType (recommendCharts J pd f ! i) = Bar
              \<and> chartType (recommendCharts J pd f ! j) = Scatter
            \<longrightarrow> i < j \<and> confidence (recommendCharts J pd f ! i) = 95 / 100
                \<and> confidence (recommendCharts J pd f ! j) \<le> 8 / 10)"
proof -
  let ?rs = "recommendCharts J pd f"
  have "sorted (map (\<lambda>r. - confidence r) ?rs)"
    by (simp add: recommendCharts_def)
  then have s: "sorted_wrt (\<lambda>a b. confidence a \<ge> confidence b) ?rs"
    by (simp add: sorted_map)
  have m: "mset ?rs = mset (recommendations J pd f)"
    by (simp add: recommendCharts_def)
  have st: "filter (\<lambda>r. confidence r = k) ?rs
              = filter (\<lambda>r. confidence r = k) (recommendations J pd f)" for k
    using sort_key_stable[of "\<lambda>r. - confidence r" "- k" "recommendations J pd f"]
    by (simp add: recommendCharts_def)
  have o: "i < j \<and> confidence (?rs ! i) = 95 / 100 \<and> confidence (?rs ! j) \<le> 8 / 10"
    if "i < length ?rs" "j < length ?rs" "chartType (?rs ! i) = Bar" "chartType (?rs ! j) = Scatter"
    for i j
  proof -
    have bi: "?rs ! i \<in> set (recommendBar J pd f)"
      using that(1,3) bar_in_recommendations set_recommendCharts nth_mem by blast
    have sj: "?rs ! j \<in> set (recommendScatter pd f)"
      using that(2,4) scatter_in_recommendations set_recommendCharts nth_mem by blast
    have ci: "confidence (?rs ! i) = 95 / 100" using recommendBar_elem[OF bi] by simp
    have cj: "confidence (?rs ! j) \<le> 8 / 10" using recommendScatter_elem[OF sj] by simp
    have "i \<noteq> j" using that(3,4) by auto
    moreover have "\<not> j < i"
    proof
      assume "j < i"
      then have "confidence (?rs ! j) \<ge> confidence (?rs ! i)"
        using sorted_wrt_nth_less[OF s \<open>j < i\<close> that(1)] by simp
      with ci cj show False by simp
    qed
    ultimately show ?thesis using ci cj by simp
  qed
  show ?thesis using s m st o by blast
qed

lemma sales_features:
  "hasCategoricalData (extractFeatures example_builtins sales_table)"
  "numNumericColumns (extractFeatures example_builtins sales_table) = 2"
  "\<not> hasTimeSeries (extractFeatures example_builtins sales_table)"
  "totalRows (extractFeatures example_builtins sales_table) = 20"
  by code_simp+

lemma sales_columns:
  "barCategoryCol example_builtins sales_table = Some ''region''"
  "barValueCol sales_table = Some ''price''"
  "columnsOfType sales_table TNumber = [''price'', ''units'']"
  by code_simp+

lemma sales_names:
  "\<not> isIdentifierColumn ''price''" "\<not> isIdentifierColumn ''units''"
  by code_simp+

lemma sales_recommendCharts:
  "map (\<lambda>r. (chartType r, confidence r, xAxis r, yAxis r))
     (recommendCharts example_builtins sales_table (extractFeatures example_builtins sales_table))
   = [(Bar, 95 / 100, Some ''region'', Some ''price''),
      (Scatter, 8 / 10, Some ''price'', Some ''units''),
      (Line, 75 / 100, Some ''price'', Some ''units'')]"
proof -
  let ?f = "extractFeatures example_builtins sales_table"
  have "recommendBar example_builtins sales_table ?f
   = [\<lparr>chartType = Bar, confidence = 95 / 100, xAxis = Some ''region'',
        yAxis = Some ''price'', dataKey = None, title = ''price by region'',
        reasoning = ''Categorical data with numeric metrics - ideal for bar charts showing comparisons''\<rparr>]"
    by (simp add: recommendBar_def sales_features sales_columns sales_names region_names)
  moreover have "recommendLine sales_table ?f
   = [\<lparr>chartType = Line, confidence = 75 / 100, xAxis = Some ''price'', yAxis = Some ''units'',
        dataKey = None, title = ''units vs price'',
        reasoning = ''Multiple numeric columns with sufficient data points for trend analysis''\<rparr>]"
    by (simp add: recommendLine_def sales_features sales_columns sales_names)
  moreover have "recommendPie example_builtins sales_table ?f = []"
    by (simp add: recommendPie_def sales_columns)
  moreover have "recommendScatter sales_table ?f
   = [\<lparr>chartType = Scatter, confidence = 8 / 10, xAxis = Some ''price'', yAxis = Some ''units'',
        dataKey = None, title = ''price vs units'',
        reasoning = ''Two numeric variables with sufficient data points - ideal for correlation analysis''\<rparr>]"
    by (simp add: recommendScatter_def sales_features sales_columns sales_names)
  moreover have "recommendArea sales_table ?f = []"
    by (simp add: recommendArea_def sales_features)
  ultimately show ?thesis
    by (simp add: recommendCharts_def recommendations_def)
qed

text \<open>
  On the table of 20 rows the rules push bar, line and scatter; the sort moves the
  scatter candidate before the line candidate and leaves the bar candidate first.
\<close>

theorem recommendCharts_order_witness:
  "map chartType (recommendCharts example_builtins sales_table
                    (extractFeatures example_builtins sales_table)) = [Bar, Scatter, Line]
   \<and> (0 :: nat) < 1
   \<and> confidence (recommendCharts example_builtins sales_table
                    (extractFeatures example_builtins sales_table) ! 0) = 95 / 100
   \<and> confidence (recommendCharts example_builtins sales_table
                    (extractFeatures example_builtins sales_table) ! 1) \<le> 8 / 10"
proof -
  let ?rs = "recommendCharts example_builtins sales_table
               (extractFeatures example_builtins sales_table)"
  have t: "map chartType ?rs = [Bar, Scatter, Line]"
    using arg_cong[OF sales_recommendCharts, of "map fst"] by (simp add: comp_def)
  then have l: "length ?rs = 3" by (metis length_map length_Cons list.size(3) numeral_3_eq_3)
  have b: "chartType (?rs ! 0) = Bar" and s: "chartType (?rs ! 1) = Scatter"
    using nth_map[of 0 ?rs chartType] nth_map[of 1 ?rs chartType] l t by simp_all
  have "0 < length ?rs \<and> 1 < length ?rs \<and> chartType (?rs ! 0) = Bar
          \<and> chartType (?rs ! 1) = Scatter
        \<longrightarrow> (0 :: nat) < 1 \<and> confidence (?rs ! 0) = 95 / 100 \<and> confidence (?rs ! 1) \<le> 8 / 10"
    using recommendCharts_order[of example_builtins sales_table
        "extractFeatures example_builtins sales_table"] by blast
  then have "(0 :: nat) < 1 \<and> confidence (?rs ! 0) = 95 / 100 \<and> confidence (?rs ! 1) \<le> 8 / 10"
    using b s l by simp
  with t show ?thesis by simp
qed

section \<open>Scatter and line materialization\<close>

lemma map_of_obj_insert:
  "map_of obj k = None \<Longrightarrow> map_of (obj_insert k v obj) = (map_of obj)(k \<mapsto> v)"
proof (induction obj)
  case Nil
  then show ?case by simp
next
  case (Cons a obj)
  then show ?case
    by (cases a) (auto split: option.splits if_splits simp: fun_upd_twist)
qed

lemma map_of_obj_update:
  "map_of (obj_update k v obj) k' =
     (if k' = k \<and> map_of obj k \<noteq> None then Some v else map_of obj k')"
  by (induction obj) (auto simp: obj_update_def)

lemma map_of_obj_define: "map_of (obj_define k v obj) = (map_of obj)(k \<mapsto> v)"
  by (auto simp: obj_define_def map_of_obj_insert map_of_obj_update fun_eq_iff)

lemma pairDatum_reads:
  "map_of (pairDatum J x y r) y = Some (JNum (Number J (r y)))"
  "x \<noteq> y \<Longrightarrow> map_of (pairDatum J x y r) x = Some (JNum (Number J (r x)))"
  by (simp_all add: pairDatum_def map_of_obj_define)

text \<open>
  C8. For a scatter or line chart with the resolved axes \<open>x\<close> and \<open>y\<close>, the payload
  holds, for the rows whose two axis values are neither \<^verbatim>\<open>null\<close> nor
  \<^verbatim>\<open>undefined\<close> and coerce to numbers other than NaN, in row order, the object of
  the two coerced numbers, cut to the first 200 (scatter) or 100 (line); 500 such rows
  give exactly 200 and 100.
\<close>

theorem pair_chart_rows:
  assumes "ct = Scatter \<or> ct = Line"
      and "finalXAxis pd ct xa = Some x" and "finalYAxis pd ct xa ya = Some y"
      and "x \<noteq> []" and "y \<noteq> []"
  shows "generateChart J now pd ct xa ya dk
           = Inr (finish now ct (if ct = Scatter then y @ '' vs '' @ x else y @ '' over '' @ x)
                    (Some x) (Some y) dk
                    (take (if ct = Scatter then 200 else 100)
                       (map (pairDatum J x y)
                          (filter (\<lambda>r. r x \<noteq> JNull \<and> r x \<noteq> JUndefined \<and> r y \<noteq> JNull
                                       \<and> r y \<noteq> JUndefined \<and> Number J (r x) \<noteq> None
                                       \<and> Number J (r y) \<noteq> None) (rows pd)))))
         \<and> (\<forall>r. map_of (pairDatum J x y r) y = Some (JNum (Number J (r y)))
                \<and> (x \<noteq> y \<longrightarrow> map_of (pairDatum J x y r) x = Some (JNum (Number J (r x)))))
         \<and> (length (rows pd) = 500
              \<and> (\<forall>r\<in>set (rows pd). r x \<noteq> JNull \<and> r x \<noteq> JUndefined \<and> r y \<noteq> JNull
                                       \<and> r y \<noteq> JUndefined \<and> Number J (r x) \<noteq> None
                                       \<and> Number J (r y) \<noteq> None)
            \<longrightarrow> (\<exists>cfg. generateChart J now pd ct xa ya dk = Inr (Some cfg)
                        \<and> length (cfg_data cfg) = (if ct = Scatter then 200 else 100)
                        \<and> cfg_data cfg = map (pairDatum J x y)
                                           (take (if ct = Scatter then 200 else 100) (rows pd))))"
proof -
  let ?ok = "\<lambda>r. r x \<noteq> JNull \<and> r x \<noteq> JUndefined \<and> r y \<noteq> JNull \<and> r y \<noteq> JUndefined
                 \<and> Number J (r x) \<noteq> None \<and> Number J (r y) \<noteq> None"
  let ?cap = "if ct = Scatter then 200 else 100 :: nat"
  let ?ttl = "if ct = Scatter then y @ '' vs '' @ x else y @ '' over '' @ x"
  have ok: "pairOk J x y = ?ok"
    by (auto simp: pairOk_def Let_def isNaN_def fun_eq_iff)
  have g: "generateChart J now pd ct xa ya dk
           = Inr (finish now ct ?ttl (Some x) (Some y) dk
                    (take ?cap (map (pairDatum J x y) (filter ?ok (rows pd)))))"
    using assms by (auto simp: generateChart_def truthy_str_def pairData_def ok)
  have big: "\<exists>cfg. generateChart J now pd ct xa ya dk = Inr (Some cfg)
                        \<and> length (cfg_data cfg) = ?cap
                        \<and> cfg_data cfg = map (pairDatum J x y) (take ?cap (rows pd))"
    if l: "length (rows pd) = 500" and a: "\<forall>r\<in>set (rows pd). ?ok r"
  proof -
    have "filter ?ok (rows pd) = rows pd" using a by (simp add: filter_id_conv)
    then have "generateChart J now pd ct xa ya dk
           = Inr (finish now ct ?ttl (Some x) (Some y) dk
                    (map (pairDatum J x y) (take ?cap (rows pd))))"
      using g by (simp add: take_map)
    moreover have "length (map (pairDatum J x y) (take ?cap (rows pd))) = ?cap"
      using l by simp
    ultimately show ?thesis
      by (auto simp: finish_def)
  qed
  show ?thesis using g big pairDatum_reads by blast
qed

lemma pairs_rows:
  "length (rows pairs_table) = 500"
  "\<forall>r\<in>set (rows pairs_table). r ''a'' \<noteq> JNull \<and> r ''a'' \<noteq> JUndefined \<and> r ''b'' \<noteq> JNull
       \<and> r ''b'' \<noteq> JUndefined \<and> Number example_builtins (r ''a'') \<noteq> None
       \<and> Number example_builtins (r ''b'') \<noteq> None"
  by (simp_all add: pairs_table_def row_of_def)

theorem pair_chart_rows_witness:
  "(\<exists>cfg. generateChart example_builtins 0 pairs_table Scatter (Some ''a'') (Some ''b'') None
            = Inr (Some cfg) \<and> length (cfg_data cfg) = 200
          \<and> cfg_data cfg = map (pairDatum example_builtins ''a'' ''b'') (take 200 (rows pairs_table)))
   \<and> (\<exists>cfg. generateChart example_builtins 0 pairs_table Line (Some ''a'') (Some ''b'') None
            = Inr (Some cfg) \<and> length (cfg_data cfg) = 100
          \<and> cfg_data cfg = map (pairDatum example_builtins ''a'' ''b'') (take 100 (rows pairs_table)))"
proof -
  have x: "finalXAxis pairs_table ct (Some ''a'') = Some ''a''" for ct
    by (simp add: finalXAxis_def truthy_str_def)
  have y: "finalYAxis pairs_table ct (Some ''a'') (Some ''b'') = Some ''b''" for ct
    by (simp add: finalYAxis_def truthy_str_def)
  have ne: "''a'' \<noteq> []" "''b'' \<noteq> []" by simp_all
  note rows = conjI[OF pairs_rows(1) pairs_rows(2)]
  note scatter = pair_chart_rows[OF disjI1[OF refl] x y ne, of example_builtins 0 None,
      THEN conjunct2, THEN conjunct2, THEN mp, OF rows]
  note line = pair_chart_rows[OF disjI2[OF refl] x y ne, of example_builtins 0 None,
      THEN conjunct2, THEN conjunct2, THEN mp, OF rows]
  show ?thesis using scatter line by simp
qed

section \<open>Axes and columns\<close>

lemma columnsOfType_in: "c \<in> set (columnsOfType pd ty) \<Longrightarrow> c \<in> set (columns pd)"
  by (auto simp: columnsOfType_def)

lemma find_in_set: "find P xs = Some c \<Longrightarrow> c \<in> set xs"
  by (auto simp: find_Some_iff)

lemma nth_opt_in_set: "nth_opt xs i = Some c \<Longrightarrow> c \<in> set xs"
  by (auto simp: nth_opt_def split: if_splits)

lemma or_str_Some: "or_str a b = Some c \<Longrightarrow> a = Some c \<or> b = Some c"
  by (auto simp: or_str_def split: if_splits)

lemma find_cols_in: "find P (columnsOfType pd ty) = Some c \<Longrightarrow> c \<in> set (columns pd)"
  using find_in_set columnsOfType_in by fast

lemma find_good_in:
  "find P (filter Q (columnsOfType pd ty)) = Some c \<Longrightarrow> c \<in> set (columns pd)"
  using find_in_set[of P "filter Q (columnsOfType pd ty)" c] columnsOfType_in[of c pd ty] by simp

lemma nth_opt_cols_in: "nth_opt (columnsOfType pd ty) i = Some c \<Longrightarrow> c \<in> set (columns pd)"
  using nth_opt_in_set columnsOfType_in by fast

lemma nth_opt_good_in:
  "nth_opt (filter Q (columnsOfType pd ty)) i = Some c \<Longrightarrow> c \<in> set (columns pd)"
  using nth_opt_in_set[of "filter Q (columnsOfType pd ty)" i c] columnsOfType_in[of c pd ty] by simp

lemmas col_in = find_cols_in find_good_in nth_opt_cols_in nth_opt_good_in find_in_set

lemma defaultAxis_in:
  "defaultAxis (filter Q (columnsOfType pd ty)) (columnsOfType pd ty) = Some c
   \<Longrightarrow> c \<in> set (columns pd)"
  unfolding defaultAxis_def
  by (auto dest!: or_str_Some dest: col_in)

lemma defaultPairY_in:
  "defaultPairY fx (filter Q (columnsOfType pd ty)) (columnsOfType pd ty) = Some c
   \<Longrightarrow> c \<in> set (columns pd)"
  unfolding defaultPairY_def
  by (auto dest!: or_str_Some dest: col_in)

lemma finalXAxis_in:
  assumes "finalXAxis pd ct xa = Some c"
  shows "xa = Some c \<or> c \<in> set (columns pd)"
  using assms
  by (cases ct) (auto simp: finalXAxis_def Let_def split: if_splits dest: defaultAxis_in)

lemma finalYAxis_in:
  assumes "finalYAxis pd ct xa ya = Some c"
  shows "ya = Some c \<or> c \<in> set (columns pd)"
  using assms
  by (cases ct)
     (auto simp: finalYAxis_def Let_def split: if_splits dest: defaultAxis_in defaultPairY_in)

lemma generateChart_axes:
  assumes "generateChart J now pd ct xa ya dk = Inr (Some cfg)"
  shows "cfg_xAxis cfg = finalXAxis pd ct xa \<and> cfg_yAxis cfg = finalYAxis pd ct xa ya
         \<and> truthy_str (finalXAxis pd ct xa) \<and> cfg_data cfg \<noteq> []"
  using assms
  by (cases ct)
     (auto simp: generateChart_def Let_def finish_def split: sum.splits if_splits)

lemma barCategoryCol_in: "barCategoryCol J pd = Some c \<Longrightarrow> c \<in> set (columns pd)"
  unfolding barCategoryCol_def Let_def
  by (auto dest!: or_str_Some dest: col_in)

lemma barValueCol_in: "barValueCol pd = Some c \<Longrightarrow> c \<in> set (columns pd)"
  unfolding barValueCol_def Let_def
  by (auto dest!: or_str_Some dest: col_in)

lemma lineTimeCol_in: "lineTimeCol pd = Some c \<Longrightarrow> c \<in> set (columns pd)"
  unfolding lineTimeCol_def Let_def
  by (auto dest!: or_str_Some dest: col_in)

lemma lineValueCol_in: "lineValueCol pd = Some c \<Longrightarrow> c \<in> set (columns pd)"
  unfolding lineValueCol_def Let_def
  by (auto dest!: or_str_Some dest: col_in)

lemma areaTimeCol_in: "areaTimeCol pd = Some c \<Longrightarrow> c \<in> set (columns pd)"
  unfolding areaTimeCol_def
  by (auto dest!: or_str_Some dest: col_in)

lemma areaValueCol_in: "areaValueCol pd = Some c \<Longrightarrow> c \<in> set (columns pd)"
  unfolding areaValueCol_def Let_def
  by (auto dest!: or_str_Some dest: col_in)

lemma first_two_in: "2 \<le> length xs \<Longrightarrow> xs ! 0 \<in> set xs \<and> xs ! 1 \<in> set xs"
proof -
  assume "2 \<le> length xs"
  then have "0 < length xs" "1 < length xs" by linarith+
  then show ?thesis using nth_mem by blast
qed

lemma two_good_in:
  assumes "2 \<le> length (filter P (columnsOfType pd ty))"
  shows "filter P (columnsOfType pd ty) ! 0 \<in> set (columns pd)
         \<and> filter P (columnsOfType pd ty) ! 1 \<in> set (columns pd)"
  using first_two_in[OF assms] columnsOfType_in by fastforce

lemma two_cols_in:
  assumes "2 \<le> length (columnsOfType pd ty)"
  shows "columnsOfType pd ty ! 0 \<in> set (columns pd) \<and> columnsOfType pd ty ! 1 \<in> set (columns pd)"
  using first_two_in[OF assms] columnsOfType_in by fastforce

lemma recommendations_axes:
  assumes "r \<in> set (recommendations J pd f)"
  shows "(\<forall>c. xAxis r = Some c \<longrightarrow> c \<in> set (columns pd))
         \<and> (\<forall>c. yAxis r = Some c \<longrightarrow> c \<in> set (columns pd))"
proof -
  consider "r \<in> set (recommendBar J pd f)" | "r \<in> set (recommendLine pd f)"
    | "r \<in> set (recommendPie J pd f)" | "r \<in> set (recommendScatter pd f)"
    | "r \<in> set (recommendArea pd f)"
    using assms by (auto simp: recommendations_def)
  then show ?thesis
  proof cases
    case 1
    then show ?thesis
      using recommendBar_elem[OF 1] barCategoryCol_in barValueCol_in by auto
  next
    case 2
    then show ?thesis
      using recommendLine_forms[OF 2] lineTimeCol_in lineValueCol_in
        two_good_in[of _ pd TNumber] two_cols_in[of pd TNumber]
      by auto
  next
    case 3
    then show ?thesis using recommendPie_elem[OF 3] by simp
  next
    case 4
    then show ?thesis
      using recommendScatter_shape[of pd f]
        two_good_in[of _ pd TNumber] two_cols_in[of pd TNumber]
      by auto
  next
    case 5
    then show ?thesis
      using recommendArea_shape[of pd f] areaTimeCol_in areaValueCol_in by auto
  qed
qed

lemma parseChartType_not_Area: "parseChartType t = Some ct \<Longrightarrow> ct \<noteq> Area \<and> t \<noteq> []"
  by (auto simp: parseChartType_def split: if_splits)

lemma route_json:
  assumes "createChartRoute J now (Some pd) ctn xa ya dk = Json cfg"
  shows "\<exists>ct. generateChart J now pd ct xa ya dk = Inr (Some cfg)
              \<and> (truthy_str xa \<longrightarrow> the xa \<in> set (columns pd))
              \<and> (truthy_str ya \<longrightarrow> the ya \<in> set (columns pd))"
  using assms
  by (auto simp: createChartRoute_def split: option.splits if_splits sum.splits failure.splits)

text \<open>
  The data key of a candidate or a payload is no column reference: the pie rule and the
  pie branch set it to the literal \<open>value\<close>, the key of the counts in the pie data;
  the other rules leave it out, and the other branches hand the caller's value through
  unread.
\<close>

lemma recommendBar_dataKey:
  "r \<in> set (recommendBar J pd f) \<Longrightarrow> chartType r = Bar \<and> dataKey r = None"
  unfolding recommendBar_def
  by (cases "hasCategoricalData f \<and> 0 < numNumericColumns f"; cases "barCategoryCol J pd";
      cases "barValueCol pd")
     (simp_all split: if_splits)

lemma recommendLine_dataKey:
  assumes "r \<in> set (recommendLine pd f)"
  shows "chartType r = Line \<and> dataKey r = None"
proof (cases "hasTimeSeries f \<and> 0 < numNumericColumns f")
  case True
  with assms show ?thesis
    unfolding recommendLine_def Let_def
    by (cases "lineTimeCol pd"; cases "lineValueCol pd") (simp_all split: if_splits)
next
  case False
  with assms show ?thesis
    unfolding recommendLine_def Let_def
    by (cases "2 \<le> numNumericColumns f \<and> 10 < totalRows f";
        cases "2 \<le> length (filter (\<lambda>col. \<not> isIdentifierColumn col) (columnsOfType pd TNumber))";
        cases "2 \<le> length (columnsOfType pd TNumber)")
       simp_all
qed

lemma recommendPie_dataKey_shape:
  "recommendPie J pd f = []
   \<or> (\<exists>r. recommendPie J pd f = [r] \<and> chartType r = Pie \<and> dataKey r = Some ''value'')"
  by (auto simp: recommendPie_def Let_def split: option.splits)

lemma recommendPie_dataKey:
  "r \<in> set (recommendPie J pd f) \<Longrightarrow> chartType r = Pie \<and> dataKey r = Some ''value''"
  using recommendPie_dataKey_shape[of J pd f] by auto

lemma recommendScatter_dataKey_shape:
  "recommendScatter pd f = []
   \<or> (\<exists>r. recommendScatter pd f = [r] \<and> chartType r = Scatter \<and> dataKey r = None)"
  by (auto simp: recommendScatter_def Let_def)

lemma recommendScatter_dataKey:
  "r \<in> set (recommendScatter pd f) \<Longrightarrow> chartType r = Scatter \<and> dataKey r = None"
  using recommendScatter_dataKey_shape[of pd f] by auto

lemma recommendArea_dataKey_shape:
  "recommendArea pd f = []
   \<or> (\<exists>r. recommendArea pd f = [r] \<and> chartType r = Area \<and> dataKey r = None)"
  by (auto simp: recommendArea_def split: option.splits)

lemma recommendArea_dataKey:
  "r \<in> set (recommendArea pd f) \<Longrightarrow> chartType r = Area \<and> dataKey r = None"
  using recommendArea_dataKey_shape[of pd f] by auto

lemma recommendations_dataKey:
  assumes "r \<in> set (recommendations J pd f)"
  shows "dataKey r = (if chartType r = Pie then Some ''value'' else None)"
proof -
  consider "r \<in> set (recommendBar J pd f)" | "r \<in> set (recommendLine pd f)"
    | "r \<in> set (recommendPie J pd f)" | "r \<in> set (recommendScatter pd f)"
    | "r \<in> set (recommendArea pd f)"
    using assms by (auto simp: recommendations_def)
  then show ?thesis
  proof cases
    case 1
    then show ?thesis using recommendBar_dataKey[OF 1] by simp
  next
    case 2
    then show ?thesis using recommendLine_dataKey[OF 2] by simp
  next
    case 3
    then show ?thesis using recommendPie_dataKey[OF 3] by simp
  next
    case 4
    then show ?thesis using recommendScatter_dataKey[OF 4] by simp
  next
    case 5
    then show ?thesis using recommendArea_dataKey[OF 5] by simp
  qed
qed

lemma generateChart_dataKey:
  assumes "generateChart J now pd ct xa ya dk = Inr (Some cfg)"
  shows "cfg_type cfg = ct \<and> cfg_dataKey cfg = (if ct = Pie then Some ''value'' else dk)"
  using assms
  by (cases ct)
     (auto simp: generateChart_def Let_def finish_def split: sum.splits if_splits)

lemma route_dataKey:
  assumes "createChartRoute J now (Some pd) ctn xa ya dk = Json cfg"
  shows "cfg_dataKey cfg = (if cfg_type cfg = Pie then Some ''value'' else dk)"
proof -
  obtain ct where g: "generateChart J now pd ct xa ya dk = Inr (Some cfg)"
    using route_json[OF assms] by blast
  show ?thesis using generateChart_dataKey[OF g] by simp
qed


text \<open>
  C3, as amended. The x and y axes of every candidate are columns of the table. The
  materializer does not look an axis up in the columns; the route does: a request whose
  x or y axis is a non-empty name outside the columns is answered with status 400 before
  \<open>generateChart\<close> is called, and the x axis and any non-empty y axis of a payload
  the route returns are columns. The data key is not checked against the columns
  anywhere: in a candidate it is \<open>value\<close> for a pie chart and absent otherwise, in a
  payload it is \<open>value\<close> for a pie chart and the caller's data key otherwise.
\<close>

theorem axes_exist:
  "(\<forall>r\<in>set (recommendCharts J pd f).
      (\<forall>c. xAxis r = Some c \<longrightarrow> c \<in> set (columns pd))
      \<and> (\<forall>c. yAxis r = Some c \<longrightarrow> c \<in> set (columns pd)))
   \<and> (\<forall>cfg. createChartRoute J now (Some pd) ctn xa ya dk = Json cfg \<longrightarrow>
          (\<forall>c. cfg_xAxis cfg = Some c \<longrightarrow> c \<in> set (columns pd))
          \<and> (\<forall>c. cfg_yAxis cfg = Some c \<and> c \<noteq> [] \<longrightarrow> c \<in> set (columns pd)))
   \<and> (\<forall>t ct s. parseChartType t = Some ct \<and> s \<noteq> [] \<and> s \<notin> set (columns pd) \<longrightarrow>
          createChartRoute J now (Some pd) (Some t) (Some s) ya dk
            = Status400 (''Column \"'' @ s @ ''\" not found in dataset''))
   \<and> (\<forall>t ct s. parseChartType t = Some ct \<and> s \<noteq> [] \<and> s \<notin> set (columns pd)
              \<and> (\<forall>x. xa = Some x \<and> x \<noteq> [] \<longrightarrow> x \<in> set (columns pd)) \<longrightarrow>
          createChartRoute J now (Some pd) (Some t) xa (Some s) dk
            = Status400 (''Column \"'' @ s @ ''\" not found in dataset''))
   \<and> (\<forall>r\<in>set (recommendCharts J pd f).
          dataKey r = (if chartType r = Pie then Some ''value'' else None))
   \<and> (\<forall>ct cfg. generateChart J now pd ct xa ya dk = Inr (Some cfg) \<longrightarrow>
          cfg_dataKey cfg = (if ct = Pie then Some ''value'' else dk))
   \<and> (\<forall>cfg. createChartRoute J now (Some pd) ctn xa ya dk = Json cfg \<longrightarrow>
          cfg_dataKey cfg = (if cfg_type cfg = Pie then Some ''value'' else dk))"
proof -
  have a: "(\<forall>c. xAxis r = Some c \<longrightarrow> c \<in> set (columns pd))
           \<and> (\<forall>c. yAxis r = Some c \<longrightarrow> c \<in> set (columns pd))"
    if "r \<in> set (recommendCharts J pd f)" for r
    using that recommendations_axes[of r J pd f] by (simp add: recommendCharts_def)
  have b: "(\<forall>c. cfg_xAxis cfg = Some c \<longrightarrow> c \<in> set (columns pd))
           \<and> (\<forall>c. cfg_yAxis cfg = Some c \<and> c \<noteq> [] \<longrightarrow> c \<in> set (columns pd))"
    if h: "createChartRoute J now (Some pd) ctn xa ya dk = Json cfg" for cfg
  proof -
    obtain ct where g: "generateChart J now pd ct xa ya dk = Inr (Some cfg)"
      and vx: "truthy_str xa \<longrightarrow> the xa \<in> set (columns pd)"
      and vy: "truthy_str ya \<longrightarrow> the ya \<in> set (columns pd)"
      using route_json[OF h] by blast
    have ax: "cfg_xAxis cfg = finalXAxis pd ct xa" "cfg_yAxis cfg = finalYAxis pd ct xa ya"
      "truthy_str (finalXAxis pd ct xa)"
      using generateChart_axes[OF g] by simp_all
    have x: "c \<in> set (columns pd)" if hx: "cfg_xAxis cfg = Some c" for c
    proof -
      have "finalXAxis pd ct xa = Some c" using ax(1) hx by simp
      then have "c \<noteq> []" using ax(3) by (simp add: truthy_str_def)
      then show ?thesis
        using finalXAxis_in[of pd ct xa c] ax(1) hx vx by (auto simp: truthy_str_def)
    qed
    have y: "c \<in> set (columns pd)" if hy: "cfg_yAxis cfg = Some c" "c \<noteq> []" for c
      using finalYAxis_in[of pd ct xa ya c] ax(2) hy vy by (auto simp: truthy_str_def)
    show ?thesis using x y by blast
  qed
  have c: "createChartRoute J now (Some pd) (Some t) (Some s) ya dk
            = Status400 (''Column \"'' @ s @ ''\" not found in dataset'')"
    if "parseChartType t = Some ct" "s \<noteq> []" "s \<notin> set (columns pd)" for t ct s
    using that parseChartType_not_Area[OF that(1)]
    by (simp add: createChartRoute_def truthy_str_def)
  have d: "createChartRoute J now (Some pd) (Some t) xa (Some s) dk
            = Status400 (''Column \"'' @ s @ ''\" not found in dataset'')"
    if "parseChartType t = Some ct" "s \<noteq> []" "s \<notin> set (columns pd)"
       "\<forall>x. xa = Some x \<and> x \<noteq> [] \<longrightarrow> x \<in> set (columns pd)" for t ct s
    using that parseChartType_not_Area[OF that(1)]
    by (cases xa) (auto simp: createChartRoute_def truthy_str_def)
  have e: "dataKey r = (if chartType r = Pie then Some ''value'' else None)"
    if "r \<in> set (recommendCharts J pd f)" for r
    using that recommendations_dataKey[of r J pd f] by (simp add: recommendCharts_def)
  have g: "cfg_dataKey cfg = (if ct = Pie then Some ''value'' else dk)"
    if "generateChart J now pd ct xa ya dk = Inr (Some cfg)" for ct cfg
    using generateChart_dataKey[OF that] by simp
  have h: "cfg_dataKey cfg = (if cfg_type cfg = Pie then Some ''value'' else dk)"
    if "createChartRoute J now (Some pd) ctn xa ya dk = Json cfg" for cfg
    using route_dataKey[OF that] .
  have A: "\<forall>r\<in>set (recommendCharts J pd f).
      (\<forall>c. xAxis r = Some c \<longrightarrow> c \<in> set (columns pd))
      \<and> (\<forall>c. yAxis r = Some c \<longrightarrow> c \<in> set (columns pd))"
    using a by blast
  have B: "\<forall>cfg. createChartRoute J now (Some pd) ctn xa ya dk = Json cfg \<longrightarrow>
          (\<forall>c. cfg_xAxis cfg = Some c \<longrightarrow> c \<in> set (columns pd))
          \<and> (\<forall>c. cfg_yAxis cfg = Some c \<and> c \<noteq> [] \<longrightarrow> c \<in> set (columns pd))"
    using b by blast
  have C: "\<forall>t ct s. parseChartType t = Some ct \<and> s \<noteq> [] \<and> s \<notin> set (columns pd) \<longrightarrow>
          createChartRoute J now (Some pd) (Some t) (Some s) ya dk
            = Status400 (''Column \"'' @ s @ ''\" not found in dataset'')"
    using c by blast
  have D: "\<forall>t ct s. parseChartType t = Some ct \<and> s \<noteq> [] \<and> s \<notin> set (columns pd)
              \<and> (\<forall>x. xa = Some x \<and> x \<noteq> [] \<longrightarrow> x \<in> set (columns pd)) \<longrightarrow>
          createChartRoute J now (Some pd) (Some t) xa (Some s) dk
            = Status400 (''Column \"'' @ s @ ''\" not found in dataset'')"
    using d by blast
  have E: "\<forall>r\<in>set (recommendCharts J pd f).
          dataKey r = (if chartType r = Pie then Some ''value'' else None)"
    using e by blast
  have G: "\<forall>ct cfg. generateChart J now pd ct xa ya dk = Inr (Some cfg) \<longrightarrow>
          cfg_dataKey cfg = (if ct = Pie then Some ''value'' else dk)"
    using g by blast
  have H: "\<forall>cfg. createChartRoute J now (Some pd) ctn xa ya dk = Json cfg \<longrightarrow>
          cfg_dataKey cfg = (if cfg_type cfg = Pie then Some ''value'' else dk)"
    using h by blast
  show ?thesis by (intro conjI A B C D E G H)
qed

lemma cat_val_columns: "columns cat_val_table = [''cat'', ''val'']"
  by (simp add: cat_val_table_def table_def)

theorem axes_exist_witness:
  "createChartRoute example_builtins 0 (Some cat_val_table) (Some ''bar'') (Some ''nope'')
     (Some ''val'') None = Status400 ''Column \"nope\" not found in dataset''
   \<and> (\<exists>cfg. createChartRoute example_builtins 0 (Some cat_val_table) (Some ''bar'') (Some ''cat'')
              (Some ''val'') None = Json cfg
            \<and> cfg_xAxis cfg = Some ''cat'' \<and> ''cat'' \<in> set (columns cat_val_table)
            \<and> cfg_dataKey cfg = None)"
proof -
  note th = axes_exist[of example_builtins cat_val_table "extractFeatures example_builtins cat_val_table"
      0 "Some ''bar''" "Some ''cat''" "Some ''val''" None]
  have p: "parseChartType ''bar'' = Some Bar" by (simp add: parseChartType_def)
  have "parseChartType ''bar'' = Some Bar \<and> ''nope'' \<noteq> [] \<and> ''nope'' \<notin> set (columns cat_val_table)
        \<longrightarrow> createChartRoute example_builtins 0 (Some cat_val_table) (Some ''bar'') (Some ''nope'')
              (Some ''val'') None = Status400 (''Column \"'' @ ''nope'' @ ''\" not found in dataset'')"
    using th by blast
  then have a: "createChartRoute example_builtins 0 (Some cat_val_table) (Some ''bar'') (Some ''nope'')
     (Some ''val'') None = Status400 ''Column \"nope\" not found in dataset''"
    using p by (simp add: cat_val_columns)
  let ?cfg = "\<lparr>cfg_id = ''bar-'' @ digits 0, cfg_type = Bar, cfg_title = ''val by cat'',
                  cfg_xAxis = Some ''cat'', cfg_yAxis = Some ''val'', cfg_dataKey = None,
                  cfg_data = [[(''cat'', JStr ''A''), (''val'', JNum (Some 15))],
                              [(''cat'', JStr ''B''), (''val'', JNum (Some 5))]]\<rparr>"
  have j: "createChartRoute example_builtins 0 (Some cat_val_table) (Some ''bar'') (Some ''cat'')
              (Some ''val'') None = Json ?cfg"
    by (simp add: createChartRoute_def truthy_str_def p cat_val_columns cat_val_bar)
  have "createChartRoute example_builtins 0 (Some cat_val_table) (Some ''bar'') (Some ''cat'')
              (Some ''val'') None = Json ?cfg
        \<longrightarrow> (\<forall>c. cfg_xAxis ?cfg = Some c \<longrightarrow> c \<in> set (columns cat_val_table))"
    using th by blast
  then have "''cat'' \<in> set (columns cat_val_table)" using j by simp
  then show ?thesis using a j by simp
qed

text \<open>
  C3 as stated fails, for an axis and for the data key. Called with the x axis
  \<open>nope\<close>, which is no column, \<open>generateChart\<close> returns a bar payload with a
  single group \<open>Unknown\<close>. Through the route, a bar request with the data key
  \<open>nope\<close> is answered with a payload that carries this data key, and the payload of
  a pie request has the data key \<open>value\<close>; neither is a column.
\<close>

theorem generateChart_accepts_unknown_axis:
  "generateChart example_builtins 0 cat_val_table Bar (Some ''nope'') (Some ''val'') None
   = Inr (Some \<lparr>cfg_id = ''bar-0'', cfg_type = Bar, cfg_title = ''val by nope'',
                  cfg_xAxis = Some ''nope'', cfg_yAxis = Some ''val'', cfg_dataKey = None,
                  cfg_data = [[(''nope'', JStr ''Unknown''), (''val'', JNum (Some (35 / 3)))]]\<rparr>)
   \<and> ''nope'' \<notin> set (columns cat_val_table)
   \<and> createChartRoute example_builtins 0 (Some cat_val_table) (Some ''bar'') (Some ''cat'')
        (Some ''val'') (Some ''nope'')
      = Json \<lparr>cfg_id = ''bar-0'', cfg_type = Bar, cfg_title = ''val by cat'',
               cfg_xAxis = Some ''cat'', cfg_yAxis = Some ''val'', cfg_dataKey = Some ''nope'',
               cfg_data = [[(''cat'', JStr ''A''), (''val'', JNum (Some 15))],
                           [(''cat'', JStr ''B''), (''val'', JNum (Some 5))]]\<rparr>
   \<and> createChartRoute example_builtins 0 (Some cat_val_table) (Some ''pie'') (Some ''cat'')
        None None
      = Json \<lparr>cfg_id = ''pie-0'', cfg_type = Pie, cfg_title = ''Distribution of cat'',
               cfg_xAxis = Some ''cat'', cfg_yAxis = None, cfg_dataKey = Some ''value'',
               cfg_data = [[(''name'', JStr ''A''), (''value'', JNum (Some 2))],
                           [(''name'', JStr ''B''), (''value'', JNum (Some 1))]]\<rparr>
   \<and> ''value'' \<notin> set (columns cat_val_table)"
proof -
  have a: "generateChart example_builtins 0 cat_val_table Bar (Some ''nope'') (Some ''val'') None
   = Inr (Some \<lparr>cfg_id = ''bar-0'', cfg_type = Bar, cfg_title = ''val by nope'',
                  cfg_xAxis = Some ''nope'', cfg_yAxis = Some ''val'', cfg_dataKey = None,
                  cfg_data = [[(''nope'', JStr ''Unknown''), (''val'', JNum (Some (35 / 3)))]]\<rparr>)"
    by (simp add: generateChart_def cat_val_table_def digits.simps example_simps)
  have b: "generateChart example_builtins 0 cat_val_table Bar (Some ''cat'') (Some ''val'')
             (Some ''nope'')
      = Inr (Some \<lparr>cfg_id = ''bar-0'', cfg_type = Bar, cfg_title = ''val by cat'',
               cfg_xAxis = Some ''cat'', cfg_yAxis = Some ''val'', cfg_dataKey = Some ''nope'',
               cfg_data = [[(''cat'', JStr ''A''), (''val'', JNum (Some 15))],
                           [(''cat'', JStr ''B''), (''val'', JNum (Some 5))]]\<rparr>)"
    by (simp add: generateChart_def cat_val_table_def digits.simps example_simps)
  have c: "generateChart example_builtins 0 cat_val_table Pie (Some ''cat'') None None
      = Inr (Some \<lparr>cfg_id = ''pie-0'', cfg_type = Pie, cfg_title = ''Distribution of cat'',
               cfg_xAxis = Some ''cat'', cfg_yAxis = None, cfg_dataKey = Some ''value'',
               cfg_data = [[(''name'', JStr ''A''), (''value'', JNum (Some 2))],
                           [(''name'', JStr ''B''), (''value'', JNum (Some 1))]]\<rparr>)"
    by (simp add: generateChart_def cat_val_table_def digits.simps pieData_def example_simps)
  have p: "parseChartType ''bar'' = Some Bar" "parseChartType ''pie'' = Some Pie"
    by (simp_all add: parseChartType_def)
  show ?thesis
    by (simp add: a createChartRoute_def truthy_str_def p cat_val_columns b c)
qed

section \<open>The null result\<close>

lemma countValues_skip:
  "\<forall>r\<in>set rs. categoryOf J x r = [] \<or> categoryOf J x r = ''Unknown'' \<Longrightarrow>
   countValues J x rs counts = Inr counts"
  by (induction rs arbitrary: counts) (auto simp: Let_def)

lemma finish_Nil: "finish now ct ttl fx fy fk [] = None"
  by (simp add: finish_def)

text \<open>
  C9. \<open>generateChart\<close> returns \<^verbatim>\<open>null\<close>, and throws nothing, when an axis it
  needs does not resolve (in particular for a bar chart without axes on a table without
  string columns), when the table has no rows, when every row of a pie chart is skipped,
  when no row of a scatter or line chart has a valid pair, and for an area chart; a
  payload never has empty data.
\<close>

theorem generateChart_null:
  "((\<not> truthy_str (finalXAxis pd ct xa)
       \<or> (ct \<noteq> Pie \<and> \<not> truthy_str (finalYAxis pd ct xa ya)))
      \<longrightarrow> generateChart J now pd ct xa ya dk = Inr None)
   \<and> (columnsOfType pd TString = [] \<longrightarrow> generateChart J now pd Bar None None dk = Inr None)
   \<and> (rows pd = [] \<longrightarrow> generateChart J now pd ct xa ya dk = Inr None)
   \<and> (\<forall>x. ct = Pie \<and> finalXAxis pd ct xa = Some x
           \<and> (\<forall>r\<in>set (rows pd). categoryOf J x r = [] \<or> categoryOf J x r = ''Unknown'')
         \<longrightarrow> generateChart J now pd ct xa ya dk = Inr None)
   \<and> (\<forall>x y. (ct = Scatter \<or> ct = Line) \<and> finalXAxis pd ct xa = Some x
             \<and> finalYAxis pd ct xa ya = Some y \<and> (\<forall>r\<in>set (rows pd). \<not> pairOk J x y r)
         \<longrightarrow> generateChart J now pd ct xa ya dk = Inr None)
   \<and> (ct = Area \<longrightarrow> generateChart J now pd ct xa ya dk = Inr None)
   \<and> (\<forall>cfg. generateChart J now pd ct xa ya dk = Inr (Some cfg) \<longrightarrow> cfg_data cfg \<noteq> [])"
proof -
  have a: "generateChart J now pd ct xa ya dk = Inr None"
    if "\<not> truthy_str (finalXAxis pd ct xa)
        \<or> (ct \<noteq> Pie \<and> \<not> truthy_str (finalYAxis pd ct xa ya))"
    using that by (cases ct) (auto simp: generateChart_def Let_def finish_Nil)
  have b: "generateChart J now pd Bar None None dk = Inr None" if "columnsOfType pd TString = []"
    using that
    by (simp add: generateChart_def finalXAxis_def truthy_str_def defaultAxis_def or_str_def
        nth_opt_def)
  have c: "generateChart J now pd ct xa ya dk = Inr None" if "rows pd = []"
    using that
    by (cases ct)
       (simp_all add: generateChart_def Let_def finish_Nil barData_def pieData_def pairData_def)
  have d: "generateChart J now pd ct xa ya dk = Inr None"
    if "ct = Pie" "finalXAxis pd ct xa = Some x"
       "\<forall>r\<in>set (rows pd). categoryOf J x r = [] \<or> categoryOf J x r = ''Unknown''" for x
    using that countValues_skip[OF that(3), of "[]"]
    by (simp add: generateChart_def Let_def truthy_str_def finish_Nil pieData_def)
  have e: "generateChart J now pd ct xa ya dk = Inr None"
    if "ct = Scatter \<or> ct = Line" "finalXAxis pd ct xa = Some x"
       "finalYAxis pd ct xa ya = Some y" "\<forall>r\<in>set (rows pd). \<not> pairOk J x y r" for x y
  proof -
    have "filter (pairOk J x y) (rows pd) = []" using that(4) by (simp add: filter_empty_conv)
    then show ?thesis
      using that(1-3) by (auto simp: generateChart_def Let_def truthy_str_def finish_Nil pairData_def)
  qed
  have f: "generateChart J now pd ct xa ya dk = Inr None" if "ct = Area"
    using that by (simp add: generateChart_def Let_def finish_Nil)
  have g: "cfg_data cfg \<noteq> []" if "generateChart J now pd ct xa ya dk = Inr (Some cfg)" for cfg
    using generateChart_axes[OF that] by simp
  show ?thesis using a b c d e f g by blast
qed

lemma pairs_no_strings: "columnsOfType pairs_table TString = []"
  by (simp add: pairs_table_def columnsOfType_def)

theorem generateChart_null_witness:
  "generateChart example_builtins 0 pairs_table Bar None None None = Inr None"
  using generateChart_null[of pairs_table Bar None None example_builtins 0 None] pairs_no_strings
  by blast

section \<open>Dictionaries and inherited names\<close>

text \<open>
  C7. The pie chart should count the occurrences of every non-empty value other than
  \<open>Unknown\<close>. The cell \<^verbatim>\<open>__proto__\<close> is such a value, but
  \<^verbatim>\<open>counts["__proto__"] = ...\<close> stores nothing, so a column that holds only this
  value gives \<^verbatim>\<open>null\<close> instead of one entry with the count 1.
\<close>

theorem pie_drops_proto_cell:
  "generateChart example_builtins 0 proto_cell_table Pie (Some ''tag'') None None = Inr None"
  by (simp add: generateChart_def proto_cell_table_def pieData_def example_simps)

text \<open>Through the route, the request for this pie chart is answered with status 400.\<close>

theorem pie_drops_proto_cell_witness:
  "createChartRoute example_builtins 0 (Some proto_cell_table) (Some ''pie'') (Some ''tag'')
     None None
   = Status400 ''Could not generate chart with selected axes. Check that axes are compatible with chart type.''"
proof -
  have "columns proto_cell_table = [''tag'']"
    by (simp add: proto_cell_table_def table_def)
  then show ?thesis
    using pie_drops_proto_cell
    by (simp add: createChartRoute_def truthy_str_def parseChartType_def)
qed

lemma constructor_joint:
  "jointValues example_builtins (rows constructor_column_table) ''constructor'' ''b''
   = [(0, 0), (1, 1)]"
  by (simp add: jointValues_def constructor_column_table_def table_def row_of_def
      List.map_filter_def)

lemma correlation_identical_columns:
  "calculateCorrelation exact_arithmetic [0, 1] [0, 1] = Some 1"
  by (simp add: calculateCorrelation_def denominator_def exact_arithmetic_def toFixed3_def
      Let_def)

text \<open>
  C10. The map should be symmetric. With a numeric column named \<open>constructor\<close> the
  test \<^verbatim>\<open>!correlations["constructor"]\<close> finds the inherited member, no row is created
  for that name, and \<^verbatim>\<open>correlations["constructor"]["b"] = 1\<close> sets a property of the
  built-in \<^verbatim>\<open>Object\<close>: the returned object holds the entry for \<open>b\<close> and
  \<open>constructor\<close> and not the one for \<open>constructor\<close> and \<open>b\<close>.
\<close>

theorem correlations_constructor_column:
  "extractMetrics_correlations example_builtins exact_arithmetic constructor_column_table
   = Inr (Some [(''b'', [(''constructor'', Some 1)])])
   \<and> cell [(''b'', [(''constructor'', Some 1)])] ''b'' ''constructor'' = Some (Some 1)
   \<and> cell [(''b'', [(''constructor'', Some 1)])] ''constructor'' ''b'' = None"
proof -
  have c: "columnsOfType constructor_column_table TNumber = [''constructor'', ''b'']"
    by (simp add: constructor_column_table_def table_def columnsOfType_def)
  have "storePair example_builtins exact_arithmetic (rows constructor_column_table)
          (''constructor'', ''b'') []
        = Inr [(''b'', [(''constructor'', Some 1)])]"
    by (simp add: storePair_def constructor_joint correlation_identical_columns ensureRow_def
        putCell_def inherited_def Object_prototype_keys_def obj_update_def obj_define_def
        array_index_def is_digit_def)
  then show ?thesis
    by (simp add: extractMetrics_correlations_def c cell_def)
qed

section \<open>Correlations of tables without inherited column names\<close>

text \<open>
  When no numeric column bears a name that every object inherits, both assignments of
  each pair land in \<^verbatim>\<open>correlations\<close>.
\<close>

lemma cell_ensureRow: "cell (ensureRow c corr) x y = cell corr x y"
  by (auto simp: ensureRow_def cell_def map_of_obj_insert split: option.splits)

lemma ensureRow_present: "\<not> inherited c \<Longrightarrow> map_of (ensureRow c corr) c \<noteq> None"
  by (auto simp: ensureRow_def map_of_obj_insert)

lemma ensureRow_keeps: "map_of corr a \<noteq> None \<Longrightarrow> map_of (ensureRow c corr) a \<noteq> None"
  by (auto simp: ensureRow_def map_of_obj_insert)

lemma putCell_keeps: "map_of corr a' \<noteq> None \<Longrightarrow> map_of (putCell a b v corr) a' \<noteq> None"
  by (auto simp: putCell_def map_of_obj_update split: option.splits)

lemma cell_putCell:
  "map_of corr a \<noteq> None \<Longrightarrow>
   cell (putCell a b v corr) x y = (if x = a \<and> y = b then Some v else cell corr x y)"
  by (auto simp: putCell_def cell_def map_of_obj_update map_of_obj_define split: option.splits)

lemma jointValues_length_sym:
  "length (jointValues J rs a b) = length (jointValues J rs b a)"
  by (induction rs) (auto simp: jointValues_def List.map_filter_def split: option.splits)

lemma two_puts:
  assumes p1: "map_of c0 col1 \<noteq> None" and p2: "map_of c0 col2 \<noteq> None"
  shows "cell (putCell col2 col1 v (putCell col1 col2 v c0)) x y
          = (if x = col1 \<and> y = col2 \<or> x = col2 \<and> y = col1 then Some v else cell c0 x y)"
proof -
  have a: "cell (putCell col1 col2 v c0) x y = (if x = col1 \<and> y = col2 then Some v else cell c0 x y)"
    by (rule cell_putCell[OF p1])
  have b: "cell (putCell col2 col1 v (putCell col1 col2 v c0)) x y
           = (if x = col2 \<and> y = col1 then Some v else cell (putCell col1 col2 v c0) x y)"
    by (rule cell_putCell[OF putCell_keeps[OF p2]])
  show ?thesis
  proof (cases "x = col2 \<and> y = col1")
    case True
    then have "x = col1 \<and> y = col2 \<or> x = col2 \<and> y = col1" by (rule disjI2)
    then show ?thesis by (simp only: b if_P[OF True] if_P)
  next
    case False
    then have "(x = col1 \<and> y = col2 \<or> x = col2 \<and> y = col1) = (x = col1 \<and> y = col2)"
      by blast
    then show ?thesis by (simp only: b a if_not_P[OF False])
  qed
qed

lemma storePair_cells:
  assumes "\<not> inherited col1" and "\<not> inherited col2"
  shows "\<exists>corr'. storePair J A rs (col1, col2) corr = Inr corr'
           \<and> (\<forall>x y. cell corr' x y =
                 (if length (jointValues J rs col1 col2) > 1
                     \<and> (x = col1 \<and> y = col2 \<or> x = col2 \<and> y = col1)
                  then Some (calculateCorrelation A (map fst (jointValues J rs col1 col2))
                                                  (map snd (jointValues J rs col1 col2)))
                  else cell corr x y))"
proof (cases "length (jointValues J rs col1 col2) > 1")
  case False
  then show ?thesis by (simp add: storePair_def)
next
  case True
  have np: "col1 \<noteq> ''__proto__''" "col2 \<noteq> ''__proto__''"
    using assms by (auto simp: inherited_def Object_prototype_keys_def)
  let ?c0 = "ensureRow col2 (ensureRow col1 corr)"
  have p1: "map_of ?c0 col1 \<noteq> None" and p2: "map_of ?c0 col2 \<noteq> None"
    using assms ensureRow_present ensureRow_keeps by blast+
  have c0: "cell ?c0 x y = cell corr x y" for x y
    by (simp add: cell_ensureRow)
  let ?v = "calculateCorrelation A (map fst (jointValues J rs col1 col2))
                                 (map snd (jointValues J rs col1 col2))"
  have e: "storePair J A rs (col1, col2) corr = Inr (putCell col2 col1 ?v (putCell col1 col2 ?v ?c0))"
    unfolding storePair_def Let_def fst_conv snd_conv
    using True np by (simp only: if_True if_False simp_thms)
  have "cell (putCell col2 col1 ?v (putCell col1 col2 ?v ?c0)) x y
          = (if x = col1 \<and> y = col2 \<or> x = col2 \<and> y = col1 then Some ?v else cell corr x y)"
    for x y
    by (simp only: two_puts[OF p1 p2] c0)
  then show ?thesis unfolding e using True by (simp only: sum.inject simp_thms ex_simps)
qed

lemma pairs_members: "(a, b) \<in> set (pairs xs) \<Longrightarrow> a \<in> set xs \<and> b \<in> set xs"
  by (induction xs) auto

lemma pairs_distinct: "distinct xs \<Longrightarrow> (a, b) \<in> set (pairs xs) \<Longrightarrow> a \<noteq> b"
  by (induction xs) (auto dest: pairs_members)

lemma storePairs_stored:
  assumes "\<forall>p\<in>set ps. \<not> inherited (fst p) \<and> \<not> inherited (snd p)"
      and "stored_from J rs qs corr"
  shows "\<exists>corr'. storePairs J A rs ps corr = Inr corr' \<and> stored_from J rs (qs @ ps) corr'"
  using assms
proof (induction ps arbitrary: corr qs)
  case Nil
  then show ?case by simp
next
  case (Cons p ps)
  obtain col1 col2 where p: "p = (col1, col2)" by (cases p)
  have ni: "\<not> inherited col1" "\<not> inherited col2" using Cons.prems(1) p by auto
  obtain corr' where s: "storePair J A rs (col1, col2) corr = Inr corr'"
    and cells: "\<And>x y. cell corr' x y =
                 (if length (jointValues J rs col1 col2) > 1
                     \<and> (x = col1 \<and> y = col2 \<or> x = col2 \<and> y = col1)
                  then Some (calculateCorrelation A (map fst (jointValues J rs col1 col2))
                                                  (map snd (jointValues J rs col1 col2)))
                  else cell corr x y)"
    using storePair_cells[OF ni, of J A rs corr] by blast
  have "stored_from J rs (qs @ [p]) corr'"
    unfolding stored_from_def
  proof (intro allI impI)
    fix a b v
    assume h: "cell corr' a b = Some v"
    show "cell corr' b a = Some v \<and> ((a, b) \<in> set (qs @ [p]) \<or> (b, a) \<in> set (qs @ [p]))
          \<and> length (jointValues J rs a b) > 1"
    proof (cases "length (jointValues J rs col1 col2) > 1
                  \<and> (a = col1 \<and> b = col2 \<or> a = col2 \<and> b = col1)")
      case True
      then show ?thesis
        using h cells[of a b] cells[of b a] p jointValues_length_sym[of J rs col1 col2]
        by auto
    next
      case False
      then have o: "cell corr a b = Some v" using h cells[of a b] by auto
      then have "cell corr b a = Some v" "(a, b) \<in> set qs \<or> (b, a) \<in> set qs"
        "length (jointValues J rs a b) > 1"
        using Cons.prems(2) unfolding stored_from_def by blast+
      moreover have "cell corr' b a = cell corr b a \<or> cell corr' b a = Some v"
        using cells[of b a] cells[of a b] h False by auto
      ultimately show ?thesis by auto
    qed
  qed
  moreover have "\<forall>p\<in>set ps. \<not> inherited (fst p) \<and> \<not> inherited (snd p)"
    using Cons.prems(1) by simp
  ultimately obtain corr'' where "storePairs J A rs ps corr' = Inr corr''"
      "stored_from J rs ((qs @ [p]) @ ps) corr''"
    using Cons.IH by blast
  then show ?case using s p by simp
qed

lemma pairs_inherited:
  assumes "\<forall>c\<in>set xs. \<not> inherited c"
  shows "\<forall>p\<in>set (pairs xs). \<not> inherited (fst p) \<and> \<not> inherited (snd p)"
proof
  fix p assume "p \<in> set (pairs xs)"
  then have "(fst p, snd p) \<in> set (pairs xs)" by simp
  then have "fst p \<in> set xs \<and> snd p \<in> set xs" by (rule pairs_members)
  then show "\<not> inherited (fst p) \<and> \<not> inherited (snd p)" using assms by blast
qed

text \<open>
  For such a table with distinct column names the returned map is symmetric, and every
  entry belongs to two different numeric columns with at least two joint rows.
\<close>

lemma correlations_symmetric:
  assumes names: "\<forall>c\<in>set (columnsOfType pd TNumber). \<not> inherited c"
      and cols: "distinct (columns pd)"
  shows "\<exists>res. extractMetrics_correlations J A pd = Inr res
           \<and> (\<forall>corr a b v. res = Some corr \<longrightarrow> cell corr a b = Some v \<longrightarrow>
                  cell corr b a = Some v \<and> a \<noteq> b
                  \<and> a \<in> set (columnsOfType pd TNumber) \<and> b \<in> set (columnsOfType pd TNumber)
                  \<and> length (jointValues J (rows pd) a b) > 1)"
proof -
  let ?cs = "columnsOfType pd TNumber"
  have d: "distinct ?cs" using cols by (simp add: columnsOfType_def)
  have "stored_from J (rows pd) [] []" by (simp add: stored_from_def cell_def)
  then obtain corr' where s: "storePairs J A (rows pd) (pairs ?cs) [] = Inr corr'"
      and inv: "stored_from J (rows pd) ([] @ pairs ?cs) corr'"
    using storePairs_stored[OF pairs_inherited[OF names]] by blast
  have i: "cell corr' b a = Some v \<and> a \<noteq> b \<and> a \<in> set ?cs \<and> b \<in> set ?cs
           \<and> length (jointValues J (rows pd) a b) > 1"
    if h: "cell corr' a b = Some v" for a b v
  proof -
    have 1: "cell corr' b a = Some v" "(a, b) \<in> set (pairs ?cs) \<or> (b, a) \<in> set (pairs ?cs)"
        "length (jointValues J (rows pd) a b) > 1"
      using inv h unfolding stored_from_def append_Nil by blast+
    have "a \<in> set ?cs \<and> b \<in> set ?cs"
      using 1(2) pairs_members[of a b ?cs] pairs_members[of b a ?cs] by blast
    moreover have "a \<noteq> b"
      using 1(2) pairs_distinct[OF d, of a b] pairs_distinct[OF d, of b a] by blast
    ultimately show ?thesis using 1 by blast
  qed
  define res where
    "res = (if length ?cs \<ge> 2 then (if length corr' > 0 then Some corr' else None) else None)"
  have e: "extractMetrics_correlations J A pd = Inr res"
  proof (cases "length ?cs \<ge> 2")
    case True
    then show ?thesis
      unfolding extractMetrics_correlations_def Let_def s res_def
      by (simp only: if_True sum.case)
  next
    case False
    then show ?thesis
      unfolding extractMetrics_correlations_def Let_def res_def
      by (simp only: if_False sum.case list.size if_False less_irrefl)
  qed
  have "cell corr b a = Some v \<and> a \<noteq> b \<and> a \<in> set ?cs \<and> b \<in> set ?cs
        \<and> length (jointValues J (rows pd) a b) > 1"
    if r: "res = Some corr" and h: "cell corr a b = Some v" for corr a b v
  proof -
    have "corr = corr'"
    proof (cases "length ?cs \<ge> 2 \<and> length corr' > 0")
      case True
      then show ?thesis using r unfolding res_def by (simp only: if_True option.inject)
    next
      case False
      then have "res = None" unfolding res_def by (simp only: split: if_splits) blast
      then show ?thesis using r by simp
    qed
    then show ?thesis using i[of a b v] h by blast
  qed
  then show ?thesis using e by blast
qed

text \<open>
  The coefficient is 0 when the denominator, as computed, is 0, and NaN when it is NaN.
\<close>

lemma calculateCorrelation_denominator:
  assumes "length x = length y" and "x \<noteq> []"
  shows "(denominator A x y = Some 0 \<longrightarrow> calculateCorrelation A x y = Some 0)
         \<and> (denominator A x y = None \<longrightarrow> calculateCorrelation A x y = None)"
proof -
  have "\<not> (length x \<noteq> length y \<or> length x = 0)" using assms by (cases y) auto
  then show ?thesis unfolding calculateCorrelation_def Let_def by (simp only: if_False) simp
qed

section \<open>Pie counts of columns without inherited names\<close>

lemma fst_obj_update: "map fst (obj_update k v obj) = map fst obj"
  by (induction obj) (auto simp: obj_update_def)

lemma set_fst_obj_insert: "set (map fst (obj_insert k v obj)) = insert k (set (map fst obj))"
proof (induction obj)
  case Nil
  then show ?case by simp
next
  case (Cons a obj)
  then show ?case by (cases a) (simp split: option.splits add: insert_commute)
qed

lemma distinct_obj_insert:
  "distinct (map fst obj) \<Longrightarrow> k \<notin> set (map fst obj) \<Longrightarrow> distinct (map fst (obj_insert k v obj))"
proof (induction obj)
  case Nil
  then show ?case by simp
next
  case (Cons a obj)
  obtain k' v' where a: "a = (k', v')" by (cases a)
  have d: "distinct (map fst (obj_insert k v obj))" using Cons by simp
  have n: "k' \<notin> set (map fst (obj_insert k v obj))"
    using Cons.prems unfolding set_fst_obj_insert a by auto
  show ?case
    using Cons.prems d n unfolding a by (auto split: option.splits)
qed

lemma filter_absent: "c \<notin> set (map f xs) \<Longrightarrow> filter (\<lambda>r. f r = c) xs = []"
  by (induction xs) auto

lemma countValues_counted:
  assumes "\<forall>r\<in>set rs. \<not> inherited (categoryOf J x r)"
      and "counted J x ps counts"
  shows "\<exists>counts'. countValues J x rs counts = Inr counts' \<and> counted J x (ps @ rs) counts'"
  using assms
proof (induction rs arbitrary: ps counts)
  case Nil
  then show ?case by simp
next
  case (Cons r rs)
  let ?v = "categoryOf J x r"
  have ni: "\<not> inherited ?v" using Cons.prems(1) by simp
  have rest: "\<forall>r\<in>set rs. \<not> inherited (categoryOf J x r)" using Cons.prems(1) by simp
  have d: "distinct (map fst counts)"
    and m: "\<And>c. map_of counts c =
             (if c \<in> set (map (categoryOf J x) ps) \<and> c \<noteq> [] \<and> c \<noteq> ''Unknown''
              then Some (length (filter (\<lambda>r. categoryOf J x r = c) ps)) else None)"
    using Cons.prems(2) unfolding counted_def by blast+
  show ?case
  proof (cases "?v \<noteq> [] \<and> ?v \<noteq> ''Unknown''")
    case False
    then have e: "countValues J x (r # rs) counts = countValues J x rs counts"
      by (auto simp: Let_def)
    have "counted J x (ps @ [r]) counts"
      unfolding counted_def using d m False by auto
    then show ?thesis using Cons.IH[OF rest, of "ps @ [r]" counts] e by simp
  next
    case keep: True
    show ?thesis
    proof (cases "map_of counts ?v")
      case None
      then have e: "countValues J x (r # rs) counts = countValues J x rs (obj_insert ?v 1 counts)"
        using keep ni by (auto simp: Let_def inherited_def Object_prototype_keys_def)
      have nk: "?v \<notin> set (map fst counts)" using None by (simp add: map_of_eq_None_iff)
      have "counted J x (ps @ [r]) (obj_insert ?v 1 counts)"
        unfolding counted_def
      proof (intro conjI allI)
        show "distinct (map fst (obj_insert ?v 1 counts))" by (rule distinct_obj_insert[OF d nk])
      next
        fix c
        have ps: "?v \<notin> set (map (categoryOf J x) ps)" using None m[of ?v] keep by (auto split: if_splits)
        then have z: "filter (\<lambda>r. categoryOf J x r = ?v) ps = []"
          by (rule filter_absent)
        show "map_of (obj_insert ?v 1 counts) c =
             (if c \<in> set (map (categoryOf J x) (ps @ [r])) \<and> c \<noteq> [] \<and> c \<noteq> ''Unknown''
              then Some (length (filter (\<lambda>r. categoryOf J x r = c) (ps @ [r]))) else None)"
        proof (cases "c = ?v")
          case True
          then show ?thesis using keep z by (simp add: map_of_obj_insert[OF None])
        next
          case False
          then show ?thesis using m[of c] by (simp add: map_of_obj_insert[OF None])
        qed
      qed
      then show ?thesis using Cons.IH[OF rest, of "ps @ [r]" "obj_insert ?v 1 counts"] e by simp
    next
      case (Some n)
      then have e: "countValues J x (r # rs) counts = countValues J x rs (obj_update ?v (n + 1) counts)"
        using keep by (auto simp: Let_def)
      have n: "?v \<in> set (map (categoryOf J x) ps)" "n = length (filter (\<lambda>r. categoryOf J x r = ?v) ps)"
        using Some m[of ?v] by (auto split: if_splits)
      have "counted J x (ps @ [r]) (obj_update ?v (n + 1) counts)"
        unfolding counted_def
      proof (intro conjI allI)
        show "distinct (map fst (obj_update ?v (n + 1) counts))" using d by (simp add: fst_obj_update)
      next
        fix c
        show "map_of (obj_update ?v (n + 1) counts) c =
             (if c \<in> set (map (categoryOf J x) (ps @ [r])) \<and> c \<noteq> [] \<and> c \<noteq> ''Unknown''
              then Some (length (filter (\<lambda>r. categoryOf J x r = c) (ps @ [r]))) else None)"
        proof (cases "c = ?v")
          case True
          then show ?thesis using keep n Some by (simp add: map_of_obj_update)
        next
          case False
          then show ?thesis using m[of c] by (simp add: map_of_obj_update)
        qed
      qed
      then show ?thesis using Cons.IH[OF rest, of "ps @ [r]" "obj_update ?v (n + 1) counts"] e by simp
    qed
  qed
qed

text \<open>The number of entries is the number of different counted values.\<close>

lemma counted_length:
  assumes "counted J x rs counts"
  shows "length counts
         = card {c \<in> set (map (categoryOf J x) rs). c \<noteq> [] \<and> c \<noteq> ''Unknown''}"
proof -
  have d: "distinct (map fst counts)" using assms unfolding counted_def by blast
  have m: "map_of counts c =
             (if c \<in> set (map (categoryOf J x) rs) \<and> c \<noteq> [] \<and> c \<noteq> ''Unknown''
              then Some (length (filter (\<lambda>r. categoryOf J x r = c) rs)) else None)" for c
    using assms unfolding counted_def by blast
  have "set (map fst counts) = dom (map_of counts)" by (simp add: dom_map_of_conv_image_fst)
  also have "\<dots> = {c \<in> set (map (categoryOf J x) rs). c \<noteq> [] \<and> c \<noteq> ''Unknown''}"
    unfolding dom_def m by (rule Collect_cong) (simp split: if_splits)
  finally have "card (set (map fst counts))
                = card {c \<in> set (map (categoryOf J x) rs). c \<noteq> [] \<and> c \<noteq> ''Unknown''}"
    by (rule arg_cong)
  then show ?thesis using distinct_card[OF d] by simp
qed

text \<open>
  The payload is the first 15 entries of a rearrangement of \<^verbatim>\<open>counts\<close> in which
  the counts never increase.
\<close>

lemma pieData_sorted:
  "\<exists>ys. pieData counts
          = map (\<lambda>(name, value). [(''name'', JStr name), (''value'', JNum (Some (real value)))])
              (take 15 ys)
        \<and> mset ys = mset counts \<and> sorted_wrt (\<lambda>a b. snd a \<ge> snd b) ys"
proof -
  let ?ys = "sort_key (\<lambda>(name, value). - int value) counts"
  have "sorted (map (\<lambda>(name, value). - int value) ?ys)" by (rule sorted_sort_key)
  then have "sorted_wrt (\<lambda>a b. snd a \<ge> snd b) ?ys"
    unfolding sorted_map by (rule sorted_wrt_mono_rel[rotated]) (auto split: prod.splits)
  then show ?thesis unfolding pieData_def by (intro exI[of _ ?ys]) simp
qed

lemma length_pieData: "length (pieData counts) = min (length counts) 15"
  by (simp add: pieData_def)

text \<open>
  A pie chart over a column none of whose cells reads as an inherited name is made of
  the counts of its values.
\<close>

lemma pie_counts:
  assumes x: "finalXAxis pd Pie xa = Some x" "x \<noteq> []"
      and names: "\<forall>r\<in>set (rows pd). \<not> inherited (categoryOf J x r)"
  shows "\<exists>counts. counted J x (rows pd) counts
           \<and> generateChart J now pd Pie xa ya dk
               = Inr (finish now Pie (''Distribution of '' @ x) (Some x) (finalYAxis pd Pie xa ya)
                        (Some ''value'') (pieData counts))"
proof -
  have "counted J x [] []" by (simp add: counted_def)
  then obtain counts where c: "countValues J x (rows pd) [] = Inr counts"
      and i: "counted J x ([] @ rows pd) counts"
    using countValues_counted[OF names] by blast
  have "generateChart J now pd Pie xa ya dk
        = Inr (finish now Pie (''Distribution of '' @ x) (Some x) (finalYAxis pd Pie xa ya)
                 (Some ''value'') (pieData counts))"
    using x c by (simp add: generateChart_def truthy_str_def)
  then show ?thesis using i by auto
qed

section \<open>Bar groups of columns without inherited names\<close>

text \<open>
  Array-index categories change the order of the groups and nothing else: as long as no
  category is an inherited name, the loop never fails and keeps the values of each
  category together.
\<close>

lemma aggregate_grouped:
  assumes "\<forall>r\<in>set rs. \<not> inherited (categoryOf J x r)"
      and "grouped J x y ps aggregated"
  shows "\<exists>aggregated'. aggregate J x y rs aggregated = Inr aggregated'
           \<and> grouped J x y (ps @ rs) aggregated'"
  using assms
proof (induction rs arbitrary: ps aggregated)
  case Nil
  then show ?case by simp
next
  case (Cons r rs)
  let ?c = "categoryOf J x r"
  let ?v = "valueOf J y r"
  have ni: "\<not> inherited ?c" using Cons.prems(1) by simp
  have rest: "\<forall>r\<in>set rs. \<not> inherited (categoryOf J x r)" using Cons.prems(1) by simp
  have d: "distinct (map fst aggregated)"
    and m: "\<And>c. map_of aggregated c =
             (if c \<in> set (map (categoryOf J x) ps) then Some (valuesOf J x y ps c) else None)"
    using Cons.prems(2) unfolding grouped_def by blast+
  show ?case
  proof (cases "map_of aggregated ?c")
    case None
    then have e: "aggregate J x y (r # rs) aggregated
                  = aggregate J x y rs (obj_insert ?c [?v] aggregated)"
      using ni by (simp add: Let_def)
    have nk: "?c \<notin> set (map fst aggregated)" using None by (simp add: map_of_eq_None_iff)
    have ps: "?c \<notin> set (map (categoryOf J x) ps)"
      using None m[of ?c] by (simp split: if_splits)
    have z: "valuesOf J x y ps ?c = []"
      unfolding valuesOf_def using filter_absent[OF ps] by simp
    have "grouped J x y (ps @ [r]) (obj_insert ?c [?v] aggregated)"
      unfolding grouped_def
    proof (intro conjI allI)
      show "distinct (map fst (obj_insert ?c [?v] aggregated))"
        by (rule distinct_obj_insert[OF d nk])
    next
      fix c
      show "map_of (obj_insert ?c [?v] aggregated) c =
             (if c \<in> set (map (categoryOf J x) (ps @ [r]))
              then Some (valuesOf J x y (ps @ [r]) c) else None)"
      proof (cases "c = ?c")
        case True
        then show ?thesis using z by (simp add: map_of_obj_insert[OF None] valuesOf_def)
      next
        case False
        then show ?thesis using m[of c] by (simp add: map_of_obj_insert[OF None] valuesOf_def)
      qed
    qed
    then show ?thesis
      using Cons.IH[OF rest, of "ps @ [r]" "obj_insert ?c [?v] aggregated"] e by simp
  next
    case (Some vs)
    then have e: "aggregate J x y (r # rs) aggregated
                  = aggregate J x y rs (obj_update ?c (vs @ [?v]) aggregated)"
      by (simp add: Let_def)
    have n: "?c \<in> set (map (categoryOf J x) ps)" "vs = valuesOf J x y ps ?c"
      using Some m[of ?c] by (auto split: if_splits)
    have "grouped J x y (ps @ [r]) (obj_update ?c (vs @ [?v]) aggregated)"
      unfolding grouped_def
    proof (intro conjI allI)
      show "distinct (map fst (obj_update ?c (vs @ [?v]) aggregated))"
        using d by (simp add: fst_obj_update)
    next
      fix c
      show "map_of (obj_update ?c (vs @ [?v]) aggregated) c =
             (if c \<in> set (map (categoryOf J x) (ps @ [r]))
              then Some (valuesOf J x y (ps @ [r]) c) else None)"
      proof (cases "c = ?c")
        case True
        then show ?thesis using n Some by (simp add: map_of_obj_update valuesOf_def)
      next
        case False
        then show ?thesis using m[of c] by (simp add: map_of_obj_update valuesOf_def)
      qed
    qed
    then show ?thesis
      using Cons.IH[OF rest, of "ps @ [r]" "obj_update ?c (vs @ [?v]) aggregated"] e by simp
  qed
qed

text \<open>
  The keys are the categories of the rows, each once, and no group is empty.
\<close>

lemma grouped_entries:
  assumes "grouped J x y rs aggregated"
  shows "distinct (map fst aggregated)
         \<and> set (map fst aggregated) = set (map (categoryOf J x) rs)
         \<and> (\<forall>(c, vs)\<in>set aggregated. vs = valuesOf J x y rs c \<and> vs \<noteq> [])"
proof -
  have d: "distinct (map fst aggregated)" using assms unfolding grouped_def by blast
  have m: "map_of aggregated c =
             (if c \<in> set (map (categoryOf J x) rs) then Some (valuesOf J x y rs c) else None)" for c
    using assms unfolding grouped_def by blast
  have "set (map fst aggregated) = dom (map_of aggregated)"
    by (simp add: dom_map_of_conv_image_fst)
  also have "\<dots> = set (map (categoryOf J x) rs)"
    unfolding dom_def m by (simp split: if_splits)
  finally have s: "set (map fst aggregated) = set (map (categoryOf J x) rs)" .
  have v: "vs = valuesOf J x y rs c \<and> vs \<noteq> []" if "(c, vs) \<in> set aggregated" for c vs
  proof -
    have "map_of aggregated c = Some vs" using that d by simp
    then have c: "c \<in> set (map (categoryOf J x) rs)" and e: "vs = valuesOf J x y rs c"
      unfolding m by (simp_all split: if_splits)
    obtain r where "r \<in> set rs" "categoryOf J x r = c" using c by auto
    then have "r \<in> set (filter (\<lambda>r. categoryOf J x r = c) rs)" by simp
    then have "filter (\<lambda>r. categoryOf J x r = c) rs \<noteq> []" by (metis empty_iff empty_set)
    then show ?thesis using e by (simp add: valuesOf_def)
  qed
  show ?thesis using d s v by blast
qed

text \<open>
  A bar chart over a column none of whose cells reads as an inherited name throws
  nothing and is made of the means of these groups, cut to the first 20.
\<close>

lemma bar_groups_means:
  assumes "finalXAxis pd Bar xa = Some x" and "finalYAxis pd Bar xa ya = Some y"
      and "x \<noteq> []" and "y \<noteq> []"
      and names: "\<forall>r\<in>set (rows pd). \<not> inherited (categoryOf J x r)"
  shows "\<exists>aggregated. grouped J x y (rows pd) aggregated
           \<and> generateChart J now pd Bar xa ya dk
               = Inr (finish now Bar (y @ '' by '' @ x) (Some x) (Some y) dk
                        (take 20 (map (\<lambda>(c, vs). barDatum x y c (mean vs)) aggregated)))"
proof -
  have "grouped J x y [] []" by (simp add: grouped_def)
  then obtain aggregated where a: "aggregate J x y (rows pd) [] = Inr aggregated"
      and g: "grouped J x y ([] @ rows pd) aggregated"
    using aggregate_grouped[OF names] by blast
  have "generateChart J now pd Bar xa ya dk
               = Inr (finish now Bar (y @ '' by '' @ x) (Some x) (Some y) dk
                        (take 20 (map (\<lambda>(c, vs). barDatum x y c (mean vs)) aggregated)))"
    using assms(1-4) a by (simp add: generateChart_def truthy_str_def barData_def mean_def)
  then show ?thesis using g by auto
qed

end
